theory Spec2Isabelle
  imports Complex_Main "HOL-Library.Log_Nat"
begin

section \<open>JavaScript values used by the services\<close>

text \<open>
  The module \<^verbatim>\<open>src/modules/AnimeStatsService.js\<close> holds three classes:
  \<^verbatim>\<open>CacheService\<close>, \<^verbatim>\<open>AnimeStatsService\<close> and \<^verbatim>\<open>AnimeCoverService\<close>.
  They are embedded below as functions over explicit state; HTTP, the chat
  interaction, the clock, the logger and the metrics sink are the environment.

  A JavaScript value that is either \<^verbatim>\<open>null\<close> or a non-null value of some
  fixed shape is a \<open>nullable\<close>. Where the code treats \<^verbatim>\<open>null\<close> and
  \<^verbatim>\<open>undefined\<close> alike (a property read that throws on both, a truthiness
  test, \<^verbatim>\<open>?.\<close>), an \<open>option\<close> stands for both.
\<close>

datatype 'a nullable = Null | Val 'a

datatype error =
    TypeError                \<comment> \<open>a property read on \<^verbatim>\<open>null\<close> or \<^verbatim>\<open>undefined\<close>\<close>
  | UserNotFound string      \<comment> \<open>\<^verbatim>\<open>new Error(`User ${username} not found on AniList`)\<close>\<close>
  | AxiosError string        \<comment> \<open>\<^verbatim>\<open>axios.post\<close> rejected: transport failure or a non-2xx status\<close>
  | DiscordError             \<comment> \<open>a call on the interaction rejected\<close>
  | EmbedError               \<comment> \<open>\<^verbatim>\<open>EmbedBuilder\<close> refused its input\<close>

subsection \<open>Numbers\<close>

text \<open>
  A JavaScript number is an IEEE 754 double. A finite double is held by its exact
  value, a rational; \<open>-0\<close> is identified with \<open>0\<close> (the code below never divides by
  a zero that it computed, and \<^verbatim>\<open>toFixed\<close> prints both zeros the same).
  \<open>to_double\<close> rounds a rational to the nearest double, ties to even, with gradual
  underflow below \<open>2 powi (-1022)\<close> and overflow to an infinity: \<open>ilog2\<close> is the
  binary exponent, \<open>ulp\<close> the spacing of the doubles at that exponent (53 significant
  bits), \<open>nearest\<close> the multiple of \<open>ulp\<close> next to the argument.
\<close>

datatype number = NaN | PInf | NInf | Fin rat

definition ilog2 :: "rat \<Rightarrow> int" where
  "ilog2 q =
     (let k = bitlen (fst (quotient_of q)) - bitlen (snd (quotient_of q))
      in if 2 powi k \<le> q then k else k - 1)"

definition round_half_even :: "rat \<Rightarrow> int" where
  "round_half_even x =
     (let f = \<lfloor>x\<rfloor>; d = x - of_int f
      in if d < 1 / 2 then f else if 1 / 2 < d then f + 1 else if even f then f else f + 1)"

definition ulp :: "rat \<Rightarrow> rat" where
  "ulp a = 2 powi (max (ilog2 a) (- 1022) - 52)"

definition nearest :: "rat \<Rightarrow> rat" where
  "nearest a = of_int (round_half_even (a / ulp a)) * ulp a"

definition to_double :: "rat \<Rightarrow> number" where
  "to_double q =
     (if q = 0 then Fin 0
      else if 2 powi 1024 \<le> nearest \<bar>q\<bar> then (if q < 0 then NInf else PInf)
      else Fin (if q < 0 then - nearest \<bar>q\<bar> else nearest \<bar>q\<bar>))"

text \<open>\<^verbatim>\<open>a + b\<close> and \<^verbatim>\<open>a / b\<close> on numbers.\<close>

fun num_add :: "number \<Rightarrow> number \<Rightarrow> number" where
  "num_add (Fin a) (Fin b) = to_double (a + b)"
| "num_add NaN _ = NaN"
| "num_add _ NaN = NaN"
| "num_add PInf NInf = NaN"
| "num_add NInf PInf = NaN"
| "num_add PInf _ = PInf"
| "num_add _ PInf = PInf"
| "num_add NInf _ = NInf"
| "num_add _ NInf = NInf"

fun num_div :: "number \<Rightarrow> number \<Rightarrow> number" where
  "num_div (Fin a) (Fin b) =
     (if b = 0 then (if a = 0 then NaN else if 0 < a then PInf else NInf)
      else to_double (a / b))"
| "num_div NaN _ = NaN"
| "num_div _ NaN = NaN"
| "num_div (Fin a) _ = Fin 0"
| "num_div PInf (Fin b) = (if b < 0 then NInf else PInf)"
| "num_div NInf (Fin b) = (if b < 0 then PInf else NInf)"
| "num_div PInf PInf = NaN"
| "num_div PInf NInf = NaN"
| "num_div NInf PInf = NaN"
| "num_div NInf NInf = NaN"

text \<open>
  \<^verbatim>\<open>x.toFixed(2)\<close> (ECMAScript, Number.prototype.toFixed): a value that is not
  finite, or of magnitude \<open>10^21\<close> and more, is printed by \<^verbatim>\<open>Number::toString\<close>;
  otherwise the text is the sign, then the digits of the integer \<open>n\<close> for which
  \<open>n / 100 - \<bar>x\<bar>\<close> is as close to zero as possible (the larger \<open>n\<close> of two), with
  a point before the last two digits. The result is kept as \<open>Digits neg n\<close>;
  \<open>fixed_string\<close> writes it out. \<open>ViaToString x\<close> is the text
  \<^verbatim>\<open>Number::toString(x)\<close>, written out for the three values that are not finite
  and left as it is for a finite \<open>x\<close> (exponent notation). Every such text is a
  non-empty string.
\<close>

datatype fixed_text = Digits bool nat | ViaToString number

fun toFixed2 :: "number \<Rightarrow> fixed_text" where
  "toFixed2 (Fin x) =
     (if 10 ^ 21 \<le> \<bar>x\<bar> then ViaToString (Fin x)
      else Digits (x < 0) (nat \<lfloor>\<bar>x\<bar> * 100 + 1 / 2\<rfloor>))"
| "toFixed2 x = ViaToString x"




text \<open>
  \<^verbatim>\<open>parseInt(string)\<close> with no radix: leading white space is skipped, a sign is
  read, a prefix \<^verbatim>\<open>0x\<close> or \<^verbatim>\<open>0X\<close> selects radix 16, and the longest run of
  digits is the value; no digit gives \<^verbatim>\<open>NaN\<close>. A string is a list of code units;
  the white space with a code unit below 256 is listed (the model does not hold the
  others). ECMAScript leaves the value of more than 20 significant decimal digits
  to the implementation; here it is the nearest double.
\<close>

definition is_white_space :: "char \<Rightarrow> bool" where
  "is_white_space c \<longleftrightarrow> (of_char c :: nat) \<in> {9, 10, 11, 12, 13, 32, 160}"

definition digit_value :: "char \<Rightarrow> nat option" where
  "digit_value c =
     (let k = of_char c :: nat in
      if 48 \<le> k \<and> k \<le> 57 then Some (k - 48)
      else if 97 \<le> k \<and> k \<le> 102 then Some (k - 87)
      else if 65 \<le> k \<and> k \<le> 70 then Some (k - 55)
      else None)"

definition is_digit :: "nat \<Rightarrow> char \<Rightarrow> bool" where
  "is_digit radix c = (case digit_value c of None \<Rightarrow> False | Some d \<Rightarrow> d < radix)"

definition digits_value :: "nat \<Rightarrow> string \<Rightarrow> nat" where
  "digits_value radix ds = foldl (\<lambda>acc c. acc * radix + the (digit_value c)) 0 ds"

definition parseInt :: "string \<Rightarrow> number" where
  "parseInt str =
     (let s1 = dropWhile is_white_space str;
          neg = (s1 \<noteq> [] \<and> hd s1 = CHR ''-'');
          s2 = (if s1 \<noteq> [] \<and> (hd s1 = CHR ''+'' \<or> hd s1 = CHR ''-'') then tl s1 else s1);
          hex = (take 2 s2 = ''0x'' \<or> take 2 s2 = ''0X'');
          radix = (if hex then 16 else 10);
          s3 = (if hex then drop 2 s2 else s2);
          z = takeWhile (is_digit radix) s3
      in if z = [] then NaN
         else to_double ((if neg then - 1 else 1) * of_nat (digits_value radix z)))"

definition isNaN :: "number \<Rightarrow> bool" where
  "isNaN x \<longleftrightarrow> x = NaN"

section \<open>CacheService\<close>

text \<open>
  \<^verbatim>\<open>
  class CacheService {
      constructor(ttl = 300000) { this.cache = new Map(); this.ttl = ttl; }
      set(key, value) {
          const entry = { value, timestamp: Date.now() };
          this.cache.set(key, entry);
          return value;
      }
      get(key) {
          const entry = this.cache.get(key);
          if (!entry) return null;
          if (Date.now() - entry.timestamp > this.ttl) {
              this.cache.delete(key);
              return null;
          }
          return entry.value;
      }
      clear(key) { this.cache.delete(key); }
  }
  \<close>
  \<^verbatim>\<open>Date.now()\<close> is an argument (\<open>now\<close>, in milliseconds); each method returns
  its result together with the updated object. An entry is an object, hence truthy,
  so \<^verbatim>\<open>!entry\<close> holds exactly when the key is not in the map.
\<close>

record 'a entry =
  entry_value :: "'a nullable"
  timestamp :: int

record 'a CacheService =
  cache :: "string \<rightharpoonup> 'a entry"
  ttl :: int

definition CacheService_new :: "int \<Rightarrow> 'a CacheService" where
  "CacheService_new t = \<lparr>cache = Map.empty, ttl = t\<rparr>"

definition CacheService_default :: "'a CacheService" where
  "CacheService_default = CacheService_new 300000"

definition CacheService_set ::
  "'a CacheService \<Rightarrow> int \<Rightarrow> string \<Rightarrow> 'a nullable \<Rightarrow> 'a nullable \<times> 'a CacheService" where
  "CacheService_set c now key v =
     (v, c\<lparr>cache := (cache c)(key \<mapsto> \<lparr>entry_value = v, timestamp = now\<rparr>)\<rparr>)"

definition CacheService_get ::
  "'a CacheService \<Rightarrow> int \<Rightarrow> string \<Rightarrow> 'a nullable \<times> 'a CacheService" where
  "CacheService_get c now key =
     (case cache c key of
        None \<Rightarrow> (Null, c)
      | Some e \<Rightarrow>
          if now - timestamp e > ttl c
          then (Null, c\<lparr>cache := (cache c)(key := None)\<rparr>)
          else (entry_value e, c))"

definition CacheService_clear :: "'a CacheService \<Rightarrow> string \<Rightarrow> 'a CacheService" where
  "CacheService_clear c key = c\<lparr>cache := (cache c)(key := None)\<rparr>"

section \<open>The upstream API\<close>

text \<open>
  \<^verbatim>\<open>axios.post\<close> either rejects or resolves to a response. Of a response the
  code reads \<^verbatim>\<open>response.data.data\<close>, typed here by the two GraphQL queries of
  the module; \<open>None\<close> at a position is a \<^verbatim>\<open>null\<close> (or a missing property) there.
  A score (\<^verbatim>\<open>media.averageScore\<close>, a GraphQL \<^verbatim>\<open>Int\<close>) is kept three-valued,
  because the code tells \<^verbatim>\<open>null\<close> from \<^verbatim>\<open>undefined\<close> there
  (\<^verbatim>\<open>score !== null\<close>).
\<close>

datatype 'a http = Rejected error | Resolved 'a

datatype score = ScoreUndefined | ScoreNull | ScoreNumber int

record media =
  media_averageScore :: score

record list_entry =
  entry_media :: "media option"

record media_list =
  list_name :: "string option"
  list_entries :: "list_entry option list option"

record collection =
  lists :: "media_list option list option"

record user =
  user_id :: int
  user_name :: string

record stats_data =
  data_User :: "user option"
  data_MediaListCollection :: "collection option"

record cover_image =
  image_extraLarge :: "string option"

record cover_media =
  media_coverImage :: "cover_image option"

record cover_data =
  data_Media :: "cover_media option"

datatype request = StatsQuery string | CoverQuery number

section \<open>Effects\<close>

text \<open>
  What a reply carries. The texts of the module:
  \<^item> \<open>ValidationMsg\<close>: "Please provide a valid AniList username."
  \<^item> \<open>FetchErrorMsg username\<close>: "Error fetching anime stats for ${username}.
    Possible reasons: Invalid AniList username, Empty anime list, AniList API
    temporarily unavailable, Network connectivity issues"
  \<^item> \<open>UnexpectedMsg\<close>: "An unexpected error occurred. Please try again later."
  \<^item> \<open>CoverInvalidId\<close>: "Please provide a valid anime ID."
  \<^item> \<open>CoverNotFound\<close>: "No cover image found for that anime ID."
  \<^item> \<open>CoverErrorMsg\<close>: "An error occurred while fetching the anime cover."
\<close>

datatype shown = NA | Shown fixed_text

record stats_embed =
  embed_username :: string
  embed_total :: nat
  embed_completed :: nat
  embed_watching :: nat
  embed_paused :: nat
  embed_dropped :: nat
  embed_planning :: nat
  embed_average :: shown

datatype payload =
    ValidationMsg
  | StatsEmbed stats_embed
  | FetchErrorMsg string
  | UnexpectedMsg
  | CoverInvalidId
  | CoverNotFound
  | CoverEmbed number string
  | CoverErrorMsg

text \<open>
  The trace of a run: every call on a collaborator, in order. A call on the
  interaction carries whether it resolved (\<open>True\<close>) or rejected.
\<close>

datatype event =
    DeferReply bool
  | EditReply payload bool
  | Reply payload bool
  | HttpPost request
  | TrackCacheHit string
  | TrackError string string
  | TrackApiRequest string string string
  | LoggerError string

text \<open>
  The environment of a run: the clock at the cache read and at the cache write,
  what the upstream answers to a request, whether the \<open>i\<close>-th call on the
  interaction resolves, and whether \<^verbatim>\<open>EmbedBuilder\<close> accepts what it is given:
  the title (\<open>title_ok\<close>, for \<^verbatim>\<open>setTitle\<close>) and what follows the title
  (\<open>embed_ok\<close>, for \<^verbatim>\<open>addFields\<close>, \<^verbatim>\<open>setFooter\<close> and \<^verbatim>\<open>setImage\<close>).
\<close>

record env =
  now_get :: int
  now_set :: int
  stats_api :: "string \<Rightarrow> stats_data option http"
  cover_api :: "number \<Rightarrow> cover_data option http"
  sink_ok :: "nat \<Rightarrow> bool"
  title_ok :: bool
  embed_ok :: bool

section \<open>AnimeStatsService\<close>

datatype avg_score = Zero | Text fixed_text

record stats =
  totalAnime :: nat
  completedAnime :: nat
  watchingAnime :: nat
  pausedAnime :: nat
  droppedAnime :: nat
  planningAnime :: nat
  averageScore :: avg_score

record AnimeStatsService =
  stats_cache :: "stats CacheService"

definition AnimeStatsService_new :: AnimeStatsService where
  "AnimeStatsService_new = \<lparr>stats_cache = CacheService_default\<rparr>"

text \<open>
  \<^verbatim>\<open>lists.find(list => list.name === X)\<close>: the first list of that name, or
  \<^verbatim>\<open>undefined\<close>; the predicate reads \<^verbatim>\<open>.name\<close> of every element it visits and
  throws on a \<^verbatim>\<open>null\<close> one.
\<close>

fun list_find :: "media_list option list \<Rightarrow> string \<Rightarrow> error + media_list option" where
  "list_find [] X = Inr None"
| "list_find (None # ls) X = Inl TypeError"
| "list_find (Some l # ls) X = (if list_name l = Some X then Inr (Some l) else list_find ls X)"

text \<open>\<^verbatim>\<open>lists.find(...)?.entries || []\<close>\<close>

definition category :: "media_list option list \<Rightarrow> string \<Rightarrow> error + list_entry option list" where
  "category ls X =
     (case list_find ls X of
        Inl e \<Rightarrow> Inl e
      | Inr None \<Rightarrow> Inr []
      | Inr (Some l) \<Rightarrow> Inr (case list_entries l of None \<Rightarrow> [] | Some es \<Rightarrow> es))"

text \<open>\<^verbatim>\<open>entry => entry.media.averageScore\<close>, and \<^verbatim>\<open>allEntries.map\<close> of it.\<close>

definition entry_score :: "list_entry option \<Rightarrow> error + score" where
  "entry_score entry =
     (case entry of
        None \<Rightarrow> Inl TypeError
      | Some e \<Rightarrow> (case entry_media e of None \<Rightarrow> Inl TypeError | Some m \<Rightarrow> Inr (media_averageScore m)))"

fun map_scores :: "list_entry option list \<Rightarrow> error + score list" where
  "map_scores [] = Inr []"
| "map_scores (entry # es) =
     (case entry_score entry of
        Inl e \<Rightarrow> Inl e
      | Inr s \<Rightarrow> (case map_scores es of Inl e \<Rightarrow> Inl e | Inr ss \<Rightarrow> Inr (s # ss)))"

text \<open>
  \<^verbatim>\<open>ToNumber\<close> of a score, for \<^verbatim>\<open>(a, b) => a + b\<close> with a number \<open>a\<close>.
  \<open>ScoreNumber n\<close> is the integer \<open>n\<close> of the response body (\<^verbatim>\<open>averageScore\<close> is an
  \<^verbatim>\<open>Int\<close> of the API); the value the code holds is the double that parsing the
  body gave for it.
\<close>

fun ToNumber :: "score \<Rightarrow> number" where
  "ToNumber ScoreUndefined = NaN"
| "ToNumber ScoreNull = Fin 0"
| "ToNumber (ScoreNumber n) = to_double (of_int n)"

definition validScores :: "score list \<Rightarrow> score list" where
  "validScores scores = filter (\<lambda>score. score \<noteq> ScoreNull) scores"

definition average :: "score list \<Rightarrow> avg_score" where
  "average valid =
     (if length valid > 0
      then Text (toFixed2 (num_div (foldl (\<lambda>a b. num_add a (ToNumber b)) (Fin 0) valid)
                                   (Fin (of_nat (length valid)))))
      else Zero)"

text \<open>
  Lines 93 to 126 of \<^verbatim>\<open>fetchUserAnimeStats\<close>, from
  \<^verbatim>\<open>const lists = response.data.data.MediaListCollection.lists\<close> on: the five
  status categories, the counts, all entries, the average.
\<close>

definition statusCategories ::
  "media_list option list \<Rightarrow>
     error + (list_entry option list \<times> list_entry option list \<times> list_entry option list \<times>
              list_entry option list \<times> list_entry option list)" where
  "statusCategories ls =
     (case category ls ''Completed'' of Inl e \<Rightarrow> Inl e | Inr completed \<Rightarrow>
     (case category ls ''Watching'' of Inl e \<Rightarrow> Inl e | Inr watching \<Rightarrow>
     (case category ls ''Paused'' of Inl e \<Rightarrow> Inl e | Inr paused \<Rightarrow>
     (case category ls ''Dropped'' of Inl e \<Rightarrow> Inl e | Inr dropped \<Rightarrow>
     (case category ls ''Planning'' of Inl e \<Rightarrow> Inl e | Inr planning \<Rightarrow>
        Inr (completed, watching, paused, dropped, planning))))))"

definition aggregate :: "media_list option list option \<Rightarrow> error + stats" where
  "aggregate lists_value =
     (case lists_value of
        None \<Rightarrow> Inl TypeError
      | Some ls \<Rightarrow>
          (case statusCategories ls of
             Inl e \<Rightarrow> Inl e
           | Inr (completed, watching, paused, dropped, planning) \<Rightarrow>
               let allEntries = completed @ watching @ paused @ dropped @ planning in
               (case map_scores allEntries of
                  Inl e \<Rightarrow> Inl e
                | Inr scores \<Rightarrow>
                    Inr \<lparr>totalAnime = length allEntries,
                         completedAnime = length completed,
                         watchingAnime = length watching,
                         pausedAnime = length paused,
                         droppedAnime = length dropped,
                         planningAnime = length planning,
                         averageScore = average (validScores scores)\<rparr>)))"

text \<open>
  The body of the \<^verbatim>\<open>try\<close> of \<^verbatim>\<open>fetchUserAnimeStats\<close> after the request: the
  reads of \<^verbatim>\<open>response.data.data.User\<close> and of
  \<^verbatim>\<open>response.data.data.MediaListCollection.lists\<close>, then the aggregation.
\<close>

definition stats_of_response :: "string \<Rightarrow> stats_data option http \<Rightarrow> error + stats" where
  "stats_of_response username response =
     (case response of
        Rejected e \<Rightarrow> Inl e
      | Resolved None \<Rightarrow> Inl TypeError
      | Resolved (Some d) \<Rightarrow>
          (case data_User d of
             None \<Rightarrow> Inl (UserNotFound username)
           | Some u \<Rightarrow>
               (case data_MediaListCollection d of
                  None \<Rightarrow> Inl TypeError
                | Some col \<Rightarrow> aggregate (lists col))))"

text \<open>
  \<^verbatim>\<open>fetchUserAnimeStats(username)\<close>: the result (\<open>Inl\<close> what it throws), the
  service afterwards, and the calls it made.
\<close>

definition fetchUserAnimeStats ::
  "env \<Rightarrow> AnimeStatsService \<Rightarrow> string \<Rightarrow> (error + stats nullable) \<times> AnimeStatsService \<times> event list" where
  "fetchUserAnimeStats env svc username =
     (let key = ''stats_'' @ username;
          (cachedStats, c1) = CacheService_get (stats_cache svc) (now_get env) key
      in case cachedStats of
           Val s \<Rightarrow> (Inr cachedStats, svc\<lparr>stats_cache := c1\<rparr>, [TrackCacheHit ''anime_stats''])
         | Null \<Rightarrow>
             (case stats_of_response username (stats_api env username) of
                Inl e \<Rightarrow>
                  (Inl e, svc\<lparr>stats_cache := c1\<rparr>,
                   [HttpPost (StatsQuery username),
                    TrackError ''fetch_failure'' ''anime_stats'',
                    LoggerError ''Anime stats fetch failed''])
              | Inr s \<Rightarrow>
                  (let (v, c2) = CacheService_set c1 (now_set env) key (Val s)
                   in (Inr v, svc\<lparr>stats_cache := c2\<rparr>, [HttpPost (StatsQuery username)]))))"

text \<open>
  \<^verbatim>\<open>createAnimeStatsEmbed(username, stats)\<close>. The one field with a decision is
  the average, \<^verbatim>\<open>${stats.averageScore || 'N/A'}\<close>: the number \<open>0\<close> is falsy, a
  text of \<^verbatim>\<open>toFixed\<close> is a non-empty string. The calls run in the order
  \<^verbatim>\<open>setColor\<close>, \<^verbatim>\<open>setTitle\<close>, then the arguments of \<^verbatim>\<open>addFields\<close> (the
  first reads of \<^verbatim>\<open>stats\<close>: reading a field of \<^verbatim>\<open>null\<close> throws), then
  \<^verbatim>\<open>addFields\<close> and \<^verbatim>\<open>setFooter\<close>; \<^verbatim>\<open>EmbedBuilder\<close> may refuse the
  title, and what follows it.
\<close>

definition average_field :: "avg_score \<Rightarrow> shown" where
  "average_field a = (case a of Zero \<Rightarrow> NA | Text t \<Rightarrow> Shown t)"


section \<open>Notions for the statements about the aggregation\<close>

text \<open>
  \<open>all_scores\<close> is \<^verbatim>\<open>allEntries.map(entry => entry.media.averageScore)\<close>, the
  scores the average is taken over, before the filter. \<open>has_list ls X\<close> says that
  the response holds a list named \<open>X\<close>. A response is \<open>well_formed\<close> when no element
  of \<^verbatim>\<open>lists\<close> is \<^verbatim>\<open>null\<close> and every entry of every list is an object with a
  \<^verbatim>\<open>media\<close> object. \<open>scored_list X scores\<close> is a list named \<open>X\<close> whose entries carry
  the given scores.
\<close>

definition all_scores :: "media_list option list \<Rightarrow> error + score list" where
  "all_scores ls =
     (case statusCategories ls of
        Inl e \<Rightarrow> Inl e
      | Inr (completed, watching, paused, dropped, planning) \<Rightarrow>
          map_scores (completed @ watching @ paused @ dropped @ planning))"

definition has_list :: "media_list option list \<Rightarrow> string \<Rightarrow> bool" where
  "has_list ls X = list_ex (\<lambda>v. case v of None \<Rightarrow> False | Some l \<Rightarrow> list_name l = Some X) ls"

definition entry_ok :: "list_entry option \<Rightarrow> bool" where
  "entry_ok entry = (case entry of None \<Rightarrow> False | Some e \<Rightarrow> entry_media e \<noteq> None)"

definition list_ok :: "media_list option \<Rightarrow> bool" where
  "list_ok v =
     (case v of
        None \<Rightarrow> False
      | Some l \<Rightarrow> (case list_entries l of None \<Rightarrow> True | Some es \<Rightarrow> list_all entry_ok es))"

definition well_formed :: "media_list option list \<Rightarrow> bool" where
  "well_formed ls = list_all list_ok ls"

definition scored_list :: "string \<Rightarrow> score list \<Rightarrow> media_list option" where
  "scored_list X scores =
     Some \<lparr>list_name = Some X,
           list_entries = Some (map (\<lambda>s. Some \<lparr>entry_media = Some \<lparr>media_averageScore = s\<rparr>\<rparr>) scores)\<rparr>"

definition alice_lists :: "media_list option list" where
  "alice_lists = [scored_list ''Completed'' [ScoreNumber 85], scored_list ''Watching'' [ScoreNull]]"


section \<open>AnimeCoverService\<close>

text \<open>
  \<^verbatim>\<open>
  async fetchAnimeCoverById(animeId, username) {
      try {
          const response = await axios.post('https://graphql.anilist.co',
              { query, variables: { id: parseInt(animeId) } }, ...);
          const result = response.data?.data?.Media?.coverImage?.extraLarge || null;
          return result;
      } catch (error) {
          logger.error('Failed to fetch anime cover', ...);
          metricsService.trackError('cover_fetch_failure', 'anime_cover');
          metricsService.trackApiRequest('anime_cover', 'failure', username);
          throw error;
      }
  }
  \<close>
  \<open>cover_url\<close> is the chain of \<^verbatim>\<open>?.\<close> with \<^verbatim>\<open>|| null\<close>: an empty string is
  falsy. The trace records the request by the \<open>animeId\<close> it was built from, and
  the environment answers by it (the body carries \<^verbatim>\<open>parseInt(animeId)\<close>).
\<close>

definition cover_url :: "cover_data option \<Rightarrow> string nullable" where
  "cover_url d =
     (case d of None \<Rightarrow> Null | Some x \<Rightarrow>
     (case data_Media x of None \<Rightarrow> Null | Some m \<Rightarrow>
     (case media_coverImage m of None \<Rightarrow> Null | Some ci \<Rightarrow>
     (case image_extraLarge ci of None \<Rightarrow> Null | Some url \<Rightarrow>
        if url = [] then Null else Val url))))"

definition fetchAnimeCoverById ::
  "env \<Rightarrow> number \<Rightarrow> string \<Rightarrow> (error + string nullable) \<times> event list" where
  "fetchAnimeCoverById env animeId username =
     (case cover_api env animeId of
        Rejected e \<Rightarrow>
          (Inl e,
           [HttpPost (CoverQuery animeId),
            LoggerError ''Failed to fetch anime cover'',
            TrackError ''cover_fetch_failure'' ''anime_cover'',
            TrackApiRequest ''anime_cover'' ''failure'' username])
      | Resolved d \<Rightarrow> (Inr (cover_url d), [HttpPost (CoverQuery animeId)]))"

section \<open>The command handlers\<close>

text \<open>
  Of an interaction the handlers read the options (\<^verbatim>\<open>getString('username')\<close>,
  \<^verbatim>\<open>getString('animeid')\<close>: a string or \<^verbatim>\<open>null\<close>) and
  \<^verbatim>\<open>interaction.user.username\<close>; they call \<^verbatim>\<open>deferReply\<close>, \<^verbatim>\<open>editReply\<close>
  and \<^verbatim>\<open>reply\<close> on it and read its flags \<^verbatim>\<open>deferred\<close> and \<^verbatim>\<open>replied\<close>.
  The state of a run holds the two flags, the number of calls made on the
  interaction, and the trace. A call on the interaction resolves or rejects as the
  environment says (\<open>sink_ok\<close> at the number of the call); when it resolves it sets
  its flag (\<^verbatim>\<open>deferReply\<close>: \<open>deferred\<close>; \<^verbatim>\<open>editReply\<close>, \<^verbatim>\<open>reply\<close>:
  \<open>replied\<close>), when it rejects it leaves the flags alone. Each returns whether it
  resolved, and the state.
\<close>

record command =
  option_username :: "string option"
  option_animeid :: "string option"
  user_username :: string

record state =
  deferred :: bool
  replied :: bool
  calls :: nat
  trace :: "event list"

definition fresh :: state where
  "fresh = \<lparr>deferred = False, replied = False, calls = 0, trace = []\<rparr>"

definition emit :: "event list \<Rightarrow> state \<Rightarrow> state" where
  "emit evs s = s\<lparr>trace := trace s @ evs\<rparr>"

definition deferReply :: "env \<Rightarrow> state \<Rightarrow> bool \<times> state" where
  "deferReply env s =
     (if sink_ok env (calls s)
      then (True, s\<lparr>deferred := True, calls := calls s + 1, trace := trace s @ [DeferReply True]\<rparr>)
      else (False, s\<lparr>calls := calls s + 1, trace := trace s @ [DeferReply False]\<rparr>))"

definition editReply :: "env \<Rightarrow> payload \<Rightarrow> state \<Rightarrow> bool \<times> state" where
  "editReply env p s =
     (if sink_ok env (calls s)
      then (True, s\<lparr>replied := True, calls := calls s + 1, trace := trace s @ [EditReply p True]\<rparr>)
      else (False, s\<lparr>calls := calls s + 1, trace := trace s @ [EditReply p False]\<rparr>))"

definition reply :: "env \<Rightarrow> payload \<Rightarrow> state \<Rightarrow> bool \<times> state" where
  "reply env p s =
     (if sink_ok env (calls s)
      then (True, s\<lparr>replied := True, calls := calls s + 1, trace := trace s @ [Reply p True]\<rparr>)
      else (False, s\<lparr>calls := calls s + 1, trace := trace s @ [Reply p False]\<rparr>))"

text \<open>
  The \<^verbatim>\<open>catch (globalError)\<close> block of both handlers, with its log message and
  its payload:
  \<^verbatim>\<open>
  logger.error(message, ...);
  try {
      if (!interaction.replied && !interaction.deferred) { await interaction.reply(p); }
      else if (interaction.deferred) { await interaction.editReply(p); }
  } catch (replyError) {
      logger.error('Failed to send final error message', ...);
  }
  \<close>
\<close>

definition last_resort :: "env \<Rightarrow> string \<Rightarrow> payload \<Rightarrow> state \<Rightarrow> state" where
  "last_resort env message p s0 =
     (let s = emit [LoggerError message] s0 in
      if \<not> replied s \<and> \<not> deferred s
      then (case reply env p s of
              (True, s') \<Rightarrow> s'
            | (False, s') \<Rightarrow> emit [LoggerError ''Failed to send final error message''] s')
      else if deferred s
      then (case editReply env p s of
              (True, s') \<Rightarrow> s'
            | (False, s') \<Rightarrow> emit [LoggerError ''Failed to send final error message''] s')
      else s)"





text \<open>
  \<^verbatim>\<open>handleAnimeCoverCommand(interaction)\<close>. The validation is
  \<^verbatim>\<open>!animeIdStr || isNaN(parseInt(animeIdStr))\<close> (\<open>invalid_id\<close>); \<open>cover_reply\<close> is
  the code after the lookup: \<^verbatim>\<open>!coverImage\<close> sends "No cover image found",
  otherwise the embed is built and sent; every throw reaches
  \<open>cover_command_failed\<close>.
\<close>

definition invalid_id :: "string option \<Rightarrow> bool" where
  "invalid_id animeIdStr =
     (case animeIdStr of None \<Rightarrow> True | Some str \<Rightarrow> str = [] \<or> isNaN (parseInt str))"

definition cover_command_failed :: "env \<Rightarrow> state \<Rightarrow> state" where
  "cover_command_failed env s =
     last_resort env ''Critical error in anime cover command'' CoverErrorMsg s"

definition cover_reply :: "env \<Rightarrow> string \<Rightarrow> number \<Rightarrow> (error + string nullable) \<Rightarrow> state \<Rightarrow> state" where
  "cover_reply env username animeId r s =
     (case r of
        Inl e \<Rightarrow> cover_command_failed env s
      | Inr Null \<Rightarrow>
          (case editReply env CoverNotFound
                  (emit [TrackApiRequest ''anime_cover'' ''failure'' username] s) of
             (True, s') \<Rightarrow> s'
           | (False, s') \<Rightarrow> cover_command_failed env s')
      | Inr (Val coverImage) \<Rightarrow>
          if coverImage = []
          then (case editReply env CoverNotFound
                       (emit [TrackApiRequest ''anime_cover'' ''failure'' username] s) of
                  (True, s') \<Rightarrow> s'
                | (False, s') \<Rightarrow> cover_command_failed env s')
          else if title_ok env \<and> embed_ok env
          then (case editReply env (CoverEmbed animeId coverImage)
                       (emit [TrackApiRequest ''anime_cover'' ''success'' username] s) of
                  (True, s') \<Rightarrow> s'
                | (False, s') \<Rightarrow> cover_command_failed env s')
          else cover_command_failed env
                 (emit [TrackApiRequest ''anime_cover'' ''success'' username] s))"

definition handleAnimeCoverCommand :: "env \<Rightarrow> command \<Rightarrow> state \<Rightarrow> state" where
  "handleAnimeCoverCommand env cmd s0 =
     (case deferReply env s0 of
        (False, s1) \<Rightarrow> cover_command_failed env s1
      | (True, s1) \<Rightarrow>
          (case option_animeid cmd of
             None \<Rightarrow>
               (case editReply env CoverInvalidId s1 of
                  (True, s2) \<Rightarrow> s2
                | (False, s2) \<Rightarrow> cover_command_failed env s2)
           | Some animeIdStr \<Rightarrow>
               if animeIdStr = [] \<or> isNaN (parseInt animeIdStr)
               then (case editReply env CoverInvalidId s1 of
                       (True, s2) \<Rightarrow> s2
                     | (False, s2) \<Rightarrow> cover_command_failed env s2)
               else (case fetchAnimeCoverById env (parseInt animeIdStr) (user_username cmd) of
                       (r, evs) \<Rightarrow>
                         cover_reply env (user_username cmd) (parseInt animeIdStr) r (emit evs s1))))"

section \<open>Reading a trace\<close>

text \<open>
  \<open>is_sink\<close>: a call on the interaction. \<open>visible\<close>: a reply the user sees, that
  is an \<^verbatim>\<open>editReply\<close> or a \<^verbatim>\<open>reply\<close> that resolved. \<open>reply_discipline\<close>
  collects what a run owes the interaction: one acknowledgment, made first; no
  \<^verbatim>\<open>reply\<close> once the acknowledgment resolved; at most one visible reply; and
  exactly one, with no \<^verbatim>\<open>reply\<close> at all, when every call on the interaction
  resolves.
\<close>

fun is_sink :: "event \<Rightarrow> bool" where
  "is_sink (DeferReply b) = True"
| "is_sink (EditReply p b) = True"
| "is_sink (Reply p b) = True"
| "is_sink e = False"




fun is_http :: "event \<Rightarrow> bool" where
  "is_http (HttpPost r) = True"
| "is_http e = False"



text \<open>
  The calls a part of a handler adds to the trace, as lists: \<open>k\<close> is the number
  of calls made on the interaction before the part starts.
\<close>

definition last_resort_events :: "env \<Rightarrow> string \<Rightarrow> payload \<Rightarrow> bool \<Rightarrow> nat \<Rightarrow> event list" where
  "last_resort_events env message p was_deferred k =
     LoggerError message #
     (if was_deferred then EditReply p (sink_ok env k) else Reply p (sink_ok env k)) #
     (if sink_ok env k then [] else [LoggerError ''Failed to send final error message''])"

definition attempt_events :: "env \<Rightarrow> payload \<Rightarrow> string \<Rightarrow> payload \<Rightarrow> nat \<Rightarrow> event list" where
  "attempt_events env p message q k =
     EditReply p (sink_ok env k) #
     (if sink_ok env k then [] else last_resort_events env message q True (Suc k))"



definition cover_reply_events ::
  "env \<Rightarrow> string \<Rightarrow> number \<Rightarrow> (error + string nullable) \<Rightarrow> nat \<Rightarrow> event list" where
  "cover_reply_events env username animeId r k =
     (case r of
        Inl e \<Rightarrow>
          last_resort_events env ''Critical error in anime cover command'' CoverErrorMsg True k
      | Inr Null \<Rightarrow>
          TrackApiRequest ''anime_cover'' ''failure'' username #
          attempt_events env CoverNotFound ''Critical error in anime cover command'' CoverErrorMsg k
      | Inr (Val coverImage) \<Rightarrow>
          if coverImage = []
          then TrackApiRequest ''anime_cover'' ''failure'' username #
               attempt_events env CoverNotFound ''Critical error in anime cover command'' CoverErrorMsg k
          else if title_ok env \<and> embed_ok env
          then TrackApiRequest ''anime_cover'' ''success'' username #
               attempt_events env (CoverEmbed animeId coverImage)
                 ''Critical error in anime cover command'' CoverErrorMsg k
          else TrackApiRequest ''anime_cover'' ''success'' username #
               last_resort_events env ''Critical error in anime cover command'' CoverErrorMsg True k)"


definition cover_handler_events :: "env \<Rightarrow> command \<Rightarrow> event list" where
  "cover_handler_events env cmd =
     DeferReply (sink_ok env 0) #
     (if \<not> sink_ok env 0
      then last_resort_events env ''Critical error in anime cover command'' CoverErrorMsg False 1
      else case option_animeid cmd of
             None \<Rightarrow>
               attempt_events env CoverInvalidId ''Critical error in anime cover command'' CoverErrorMsg 1
           | Some animeIdStr \<Rightarrow>
               if animeIdStr = [] \<or> isNaN (parseInt animeIdStr)
               then attempt_events env CoverInvalidId
                      ''Critical error in anime cover command'' CoverErrorMsg 1
               else snd (fetchAnimeCoverById env (parseInt animeIdStr) (user_username cmd)) @
                    cover_reply_events env (user_username cmd) (parseInt animeIdStr)
                      (fst (fetchAnimeCoverById env (parseInt animeIdStr) (user_username cmd))) 1)"

section \<open>Concrete runs\<close>

text \<open>
  \<open>env_ok\<close>: the upstream answers (user \<open>alice\<close> with one completed entry of score
  85 and one watched entry without score; a cover for every id) and every call on
  the interaction resolves. \<open>env_upstream_down\<close>: \<^verbatim>\<open>axios.post\<close> rejects.
  \<open>env_all_down\<close>: moreover every call on the interaction after the acknowledgment
  rejects. \<open>env_late_down\<close>: the upstream is down and the cache is read at 400000.
  \<open>svc_stale\<close> holds an entry for \<open>alice\<close> written at time 0
  (expired at 400000, not at 1000).
\<close>

definition env_ok :: env where
  "env_ok =
     \<lparr>now_get = 1000, now_set = 1001,
      stats_api = (\<lambda>u. Resolved (Some \<lparr>data_User = Some \<lparr>user_id = 1, user_name = u\<rparr>,
                                         data_MediaListCollection = Some \<lparr>lists = Some alice_lists\<rparr>\<rparr>)),
      cover_api = (\<lambda>n. Resolved (Some \<lparr>data_Media =
                     Some \<lparr>media_coverImage = Some \<lparr>image_extraLarge = Some ''https://img/21.jpg''\<rparr>\<rparr>\<rparr>)),
      sink_ok = (\<lambda>i. True), title_ok = True, embed_ok = True\<rparr>"

definition env_upstream_down :: env where
  "env_upstream_down =
     env_ok\<lparr>stats_api := (\<lambda>u. Rejected (AxiosError ''ECONNRESET'')),
            cover_api := (\<lambda>n. Rejected (AxiosError ''ECONNRESET''))\<rparr>"


definition cmd_alice :: command where
  "cmd_alice = \<lparr>option_username = Some ''alice'', option_animeid = Some ''21'', user_username = ''alice''\<rparr>"

definition cmd_negative :: command where
  "cmd_negative = \<lparr>option_username = None, option_animeid = Some ''-5'', user_username = ''alice''\<rparr>"

definition cmd_abc :: command where
  "cmd_abc = \<lparr>option_username = None, option_animeid = Some ''abc'', user_username = ''alice''\<rparr>"

definition alice_stats :: stats where
  "alice_stats =
     \<lparr>totalAnime = 2, completedAnime = 1, watchingAnime = 1, pausedAnime = 0,
      droppedAnime = 0, planningAnime = 0, averageScore = Text (Digits False 8500)\<rparr>"

definition completed_only :: "media_list option list" where
  "completed_only = [scored_list ''Completed'' [ScoreNumber 85]]"

definition svc_stale :: AnimeStatsService where
  "svc_stale =
     \<lparr>stats_cache =
        \<lparr>cache = [''stats_alice'' \<mapsto> \<lparr>entry_value = Val alice_stats, timestamp = 0\<rparr>],
         ttl = 300000\<rparr>\<rparr>"

definition env_late_down :: env where
  "env_late_down = env_upstream_down\<lparr>now_get := 400000\<rparr>"

section \<open>Cache expiry\<close>

lemma get_after_set:
  "CacheService_get (snd (CacheService_set c createdAt k v)) t k =
     (if t - createdAt > ttl c
      then (Null, (snd (CacheService_set c createdAt k v))\<lparr>cache := (cache c)(k := None)\<rparr>)
      else (v, snd (CacheService_set c createdAt k v)))"
  by (simp add: CacheService_get_def CacheService_set_def)

lemma get_absent_key:
  "cache c k = None \<Longrightarrow> CacheService_get c t k = (Null, c)"
  by (simp add: CacheService_get_def)

text \<open>
  C2, as the code has it. After \<open>set(k, v)\<close> at time \<open>createdAt\<close>, a \<open>get(k)\<close> at
  time \<open>t\<close> returns \<open>v\<close> and leaves the cache alone whenever \<open>t \<le> createdAt + ttl\<close>
  (the instant \<open>createdAt + ttl\<close> included: the test is \<^verbatim>\<open>now - timestamp > ttl\<close>);
  whenever \<open>t > createdAt + ttl\<close> it returns \<^verbatim>\<open>null\<close> and deletes the entry, so that
  a following \<open>get(k)\<close>, at any time, is \<^verbatim>\<open>null\<close> too.
\<close>

theorem cache_expiry:
  "(let c1 = snd (CacheService_set c createdAt k v) in
     (t \<le> createdAt + ttl c \<longrightarrow> CacheService_get c1 t k = (v, c1)) \<and>
     (t > createdAt + ttl c \<longrightarrow>
        fst (CacheService_get c1 t k) = Null \<and>
        cache (snd (CacheService_get c1 t k)) k = None \<and>
        (\<forall>t'. fst (CacheService_get (snd (CacheService_get c1 t k)) t' k) = Null)))"
proof -
  have fresh: "t \<le> createdAt + ttl c \<Longrightarrow>
      CacheService_get (snd (CacheService_set c createdAt k v)) t k
        = (v, snd (CacheService_set c createdAt k v))"
    by (simp add: get_after_set)
  have stale: "t > createdAt + ttl c \<Longrightarrow>
      CacheService_get (snd (CacheService_set c createdAt k v)) t k
        = (Null, (snd (CacheService_set c createdAt k v))\<lparr>cache := (cache c)(k := None)\<rparr>)"
    by (simp add: get_after_set)
  have gone: "CacheService_get
      ((snd (CacheService_set c createdAt k v))\<lparr>cache := (cache c)(k := None)\<rparr>) t' k
        = (Null, (snd (CacheService_set c createdAt k v))\<lparr>cache := (cache c)(k := None)\<rparr>)" for t'
    by (rule get_absent_key) simp
  show ?thesis
    unfolding Let_def using fresh stale gone by simp
qed

theorem cache_expiry_witness:
  "CacheService_get (snd (CacheService_set (CacheService_new 300000) 1000 ''stats_alice'' (Val (7::nat))))
       300999 ''stats_alice''
     = (Val 7, snd (CacheService_set (CacheService_new 300000) 1000 ''stats_alice'' (Val 7))) \<and>
   fst (CacheService_get (snd (CacheService_set (CacheService_new 300000) 1000 ''stats_alice'' (Val (7::nat))))
       301001 ''stats_alice'') = Null"
  using cache_expiry [of "CacheService_new 300000" 1000 "''stats_alice''" "Val (7::nat)" 300999]
        cache_expiry [of "CacheService_new 300000" 1000 "''stats_alice''" "Val (7::nat)" 301001]
  by (simp add: Let_def CacheService_new_def)

text \<open>
  C2 as stated asks for \<^verbatim>\<open>null\<close> at every \<open>t \<ge> createdAt + ttl\<close>. At
  \<open>t = createdAt + ttl\<close> the code still returns the stored value.
\<close>

theorem cache_expiry_boundary_counterexample:
  "\<not> ((301000::int) \<ge> 1000 + ttl (CacheService_new 300000 :: nat CacheService) \<longrightarrow>
      fst (CacheService_get
            (snd (CacheService_set (CacheService_new 300000) 1000 ''stats_alice'' (Val (7::nat))))
            301000 ''stats_alice'') = Null)"
  by (simp add: CacheService_get_def CacheService_set_def CacheService_new_def)

text \<open>
  C10. \<open>set(k, null)\<close> stores an entry holding \<^verbatim>\<open>null\<close> under \<open>k\<close>, and a read of
  \<open>k\<close> returns \<^verbatim>\<open>null\<close> at every time (up to \<open>createdAt + ttl\<close> the entry stays
  in the cache). That is also what \<open>get\<close> answers for a key with no entry and for a
  key whose entry, holding a value, has expired: the result of \<open>get\<close> does not tell
  a stored \<^verbatim>\<open>null\<close> from an absent or an expired entry.
\<close>

theorem stored_null_reads_as_absent:
  "cache (snd (CacheService_set c t k Null)) k = Some \<lparr>entry_value = Null, timestamp = t\<rparr> \<and>
   fst (CacheService_get (snd (CacheService_set c t k Null)) t' k) = Null \<and>
   (t' \<le> t + ttl c \<longrightarrow>
      snd (CacheService_get (snd (CacheService_set c t k Null)) t' k) = snd (CacheService_set c t k Null)) \<and>
   (cache c k = None \<longrightarrow> CacheService_get c t' k = (Null, c)) \<and>
   (cache c k = Some e \<and> t' - timestamp e > ttl c \<longrightarrow> fst (CacheService_get c t' k) = Null) \<and>
   (t' > t + ttl c \<longrightarrow>
      fst (CacheService_get (snd (CacheService_set c t k (Val v))) t' k) = Null)"
  by (simp add: CacheService_get_def CacheService_set_def)

text \<open>
  A cache with a ttl of 300000: a \<^verbatim>\<open>null\<close> stored at 1000 and read at 2000, a key
  never set, and the value 7 stored at 1000 and read at 301001, all read as
  \<^verbatim>\<open>null\<close>.
\<close>

theorem stored_null_reads_as_absent_witness:
  "cache (snd (CacheService_set (CacheService_new 300000 :: nat CacheService) 1000 ''stats_alice'' Null))
      ''stats_alice'' = Some \<lparr>entry_value = Null, timestamp = 1000\<rparr> \<and>
   CacheService_get (snd (CacheService_set (CacheService_new 300000 :: nat CacheService) 1000 ''stats_alice'' Null))
      2000 ''stats_alice''
     = (Null, snd (CacheService_set (CacheService_new 300000) 1000 ''stats_alice'' Null)) \<and>
   (2000::int) \<le> 1000 + ttl (CacheService_new 300000 :: nat CacheService) \<and>
   cache (CacheService_new 300000 :: nat CacheService) ''stats_alice'' = None \<and>
   CacheService_get (CacheService_new 300000 :: nat CacheService) 2000 ''stats_alice''
     = (Null, CacheService_new 300000) \<and>
   cache (snd (CacheService_set (CacheService_new 300000) 1000 ''stats_alice'' (Val (7::nat)))) ''stats_alice''
     = Some \<lparr>entry_value = Val 7, timestamp = 1000\<rparr> \<and>
   (301001::int) - 1000 > ttl (CacheService_new 300000 :: nat CacheService) \<and>
   fst (CacheService_get (snd (CacheService_set (CacheService_new 300000) 1000 ''stats_alice'' (Val (7::nat))))
      301001 ''stats_alice'') = Null"
  using stored_null_reads_as_absent
    [where c = "CacheService_new 300000 :: nat CacheService" and t = 1000 and k = "''stats_alice''"
       and t' = 2000]
    stored_null_reads_as_absent
    [where c = "snd (CacheService_set (CacheService_new 300000) 1000 ''stats_alice'' (Val (7::nat)))"
       and t' = 301001 and k = "''stats_alice''"
       and e = "\<lparr>entry_value = Val 7, timestamp = 1000\<rparr>"]
    stored_null_reads_as_absent
    [where c = "CacheService_new 300000 :: nat CacheService" and t = 1000 and k = "''stats_alice''"
       and t' = 301001 and v = 7]
  by (simp add: CacheService_get_def CacheService_set_def CacheService_new_def)

section \<open>Rounding to a double\<close>

lemma ilog2_bounds:
  assumes "0 < q"
  shows "2 powi ilog2 q \<le> q" and "q < 2 powi (ilog2 q + 1)"
proof -
  obtain a b where ab: "quotient_of q = (a, b)" by (cases "quotient_of q")
  have b: "0 < b" using quotient_of_denom_pos [OF ab] .
  have q: "q = of_int a / of_int b" using quotient_of_div [OF ab] .
  have a: "0 < a" using assms b unfolding q by (simp add: zero_less_divide_iff)
  define k where "k = bitlen a - bitlen b"
  have la: "1 \<le> bitlen a" and lb: "1 \<le> bitlen b"
    using a b bitlen_eq_zero_iff [of a] bitlen_eq_zero_iff [of b] bitlen_nonneg [of a] bitlen_nonneg [of b]
    by linarith+
  have a1: "(2::rat) ^ nat (bitlen a - 1) \<le> of_int a" and a2: "of_int a < (2::rat) ^ nat (bitlen a)"
    using bitlen_bounds [OF a] by (metis of_int_le_iff of_int_numeral of_int_power, metis of_int_less_iff of_int_numeral of_int_power)
  have b1: "(2::rat) ^ nat (bitlen b - 1) \<le> of_int b" and b2: "of_int b < (2::rat) ^ nat (bitlen b)"
    using bitlen_bounds [OF b] by (metis of_int_le_iff of_int_numeral of_int_power, metis of_int_less_iff of_int_numeral of_int_power)
  have pa: "(2::rat) powi (bitlen a) = 2 ^ nat (bitlen a)" "(2::rat) powi (bitlen a - 1) = 2 ^ nat (bitlen a - 1)"
    using la by (simp_all add: power_int_def)
  have pb: "(2::rat) powi (bitlen b) = 2 ^ nat (bitlen b)" "(2::rat) powi (bitlen b - 1) = 2 ^ nat (bitlen b - 1)"
    using lb by (simp_all add: power_int_def)
  have lo: "(2::rat) powi (k - 1) \<le> q"
  proof -
    have "(2::rat) powi (k - 1) = 2 powi (bitlen a - 1) / 2 powi (bitlen b)"
      unfolding k_def by (simp add: power_int_diff [symmetric] algebra_simps)
    also have "\<dots> \<le> of_int a / of_int b"
      unfolding pa pb using a1 b2 a b by (intro frac_le) simp_all
    finally show ?thesis unfolding q .
  qed
  have hi: "q < (2::rat) powi (k + 1)"
  proof -
    have "of_int a / of_int b < (2::rat) powi (bitlen a) / 2 powi (bitlen b - 1)"
      unfolding pa pb using a2 b1 a b by (intro frac_less) simp_all
    also have "\<dots> = 2 powi (k + 1)"
      unfolding k_def by (simp add: power_int_diff [symmetric] algebra_simps)
    finally show ?thesis unfolding q .
  qed
  have il: "ilog2 q = (if 2 powi k \<le> q then k else k - 1)"
    by (simp add: ilog2_def ab k_def)
  show "2 powi ilog2 q \<le> q" using lo unfolding il by simp
  show "q < 2 powi (ilog2 q + 1)" using hi unfolding il by (simp add: not_le)
qed


lemma pow2_less_imp: "(2::rat) powi m < 2 powi n \<Longrightarrow> m < n"
  using power_int_increasing [of n m "2::rat"] by (cases "m < n") auto

lemma pow2_le_imp: "(2::rat) powi m \<le> 2 powi n \<Longrightarrow> m \<le> n"
  using power_int_strict_increasing [of n m "2::rat"] by (cases "m \<le> n") auto


lemma round_half_even_of_int: "round_half_even (of_int k) = k"
  by (simp add: round_half_even_def)







lemma nearest_of_int:
  assumes "0 < k" and "k < 2 ^ 53"
  shows "nearest (of_int k) = of_int k"
proof -
  let ?a = "of_int k :: rat"
  have pos: "0 < ?a" using assms(1) by simp
  have "2 powi ilog2 ?a \<le> ?a" using ilog2_bounds(1) [OF pos] .
  also have "?a < 2 powi 53" using assms(2)
    by (metis of_int_less_iff of_int_numeral of_int_power power_int_numeral)
  finally have "ilog2 ?a < 53" by (rule pow2_less_imp)
  moreover have "(2::rat) powi 0 \<le> ?a" using assms(1) by simp
  then have "(2::rat) powi 0 < 2 powi (ilog2 ?a + 1)"
    using ilog2_bounds(2) [OF pos] by (rule le_less_trans)
  then have "0 \<le> ilog2 ?a" using pow2_less_imp by fastforce
  ultimately have j: "ilog2 ?a = 52 - int (nat (52 - ilog2 ?a))" and "0 \<le> ilog2 ?a"
    by simp_all
  define j where "j = nat (52 - ilog2 ?a)"
  have u: "ulp ?a = 1 / 2 ^ j"
    using j \<open>0 \<le> ilog2 ?a\<close> unfolding j_def [symmetric]
    by (simp add: ulp_def max_def power_int_minus_divide)
  have "?a / ulp ?a = of_int (k * 2 ^ j)" by (simp add: u)
  then have "round_half_even (?a / ulp ?a) = k * 2 ^ j"
    by (simp only: round_half_even_of_int)
  then show ?thesis by (simp add: nearest_def u)
qed

lemma to_double_of_int:
  assumes "\<bar>k\<bar> < 2 ^ 53"
  shows "to_double (of_int k) = Fin (of_int k)"
proof (cases "k = 0")
  case True
  then show ?thesis by (simp add: to_double_def)
next
  case False
  then have pos: "0 < \<bar>k\<bar>" by simp
  have n: "nearest \<bar>of_int k :: rat\<bar> = of_int \<bar>k\<bar>"
    using nearest_of_int [OF pos assms] by simp
  have "(of_int \<bar>k\<bar> :: rat) < 2 ^ 53" using assms
    by (metis of_int_less_iff of_int_numeral of_int_power)
  also have "(2::rat) ^ 53 \<le> 2 ^ 1024" by (intro power_increasing) simp_all
  finally have small: "\<not> (2::rat) powi 1024 \<le> of_int \<bar>k\<bar>"
    by (simp del: power_int_numeral add: power_int_def)
  have nz: "(of_int k :: rat) \<noteq> 0" using False by simp
  show ?thesis
    unfolding to_double_def n using nz small by (simp del: power_int_numeral)
qed




section \<open>The average\<close>


lemma nearest_zero: "nearest 0 = 0"
  by (simp add: nearest_def round_half_even_def)


section \<open>The aggregation\<close>

lemma list_find_absent:
  "list_find ls X = Inr r \<Longrightarrow> \<not> has_list ls X \<Longrightarrow> r = None"
  by (induction ls X rule: list_find.induct) (auto simp: has_list_def split: if_splits)

lemma category_absent:
  "category ls X = Inr es \<Longrightarrow> \<not> has_list ls X \<Longrightarrow> es = []"
  by (auto simp: category_def split: sum.splits option.splits dest: list_find_absent)

lemma list_find_well_formed:
  "well_formed ls \<Longrightarrow>
     list_find ls X = Inr None \<or> (\<exists>l. list_find ls X = Inr (Some l) \<and> list_ok (Some l))"
  by (induction ls X rule: list_find.induct) (auto simp: well_formed_def list_ok_def)

lemma category_well_formed:
  "well_formed ls \<Longrightarrow> \<exists>es. category ls X = Inr es \<and> list_all entry_ok es"
  using list_find_well_formed [of ls X]
  by (auto simp: category_def list_ok_def split: option.splits)

lemma map_scores_ok:
  "list_all entry_ok es \<Longrightarrow> \<exists>ss. map_scores es = Inr ss"
  by (induction es) (auto simp: entry_ok_def entry_score_def split: option.splits)

lemma statusCategories_well_formed:
  assumes "well_formed ls"
  shows "\<exists>c w p d pl. statusCategories ls = Inr (c, w, p, d, pl) \<and>
           list_all entry_ok (c @ w @ p @ d @ pl)"
proof -
  obtain c where c: "category ls ''Completed'' = Inr c" "list_all entry_ok c"
    using category_well_formed [OF assms] by blast
  obtain w where w: "category ls ''Watching'' = Inr w" "list_all entry_ok w"
    using category_well_formed [OF assms] by blast
  obtain p where p: "category ls ''Paused'' = Inr p" "list_all entry_ok p"
    using category_well_formed [OF assms] by blast
  obtain d where d: "category ls ''Dropped'' = Inr d" "list_all entry_ok d"
    using category_well_formed [OF assms] by blast
  obtain pl where pl: "category ls ''Planning'' = Inr pl" "list_all entry_ok pl"
    using category_well_formed [OF assms] by blast
  show ?thesis
    using c w p d pl by (simp add: statusCategories_def)
qed

lemma aggregate_well_formed:
  assumes "well_formed ls"
  shows "\<exists>st. aggregate (Some ls) = Inr st"
proof -
  obtain c w p d pl where sc: "statusCategories ls = Inr (c, w, p, d, pl)"
    and ok: "list_all entry_ok (c @ w @ p @ d @ pl)"
    using statusCategories_well_formed [OF assms] by blast
  obtain ss where "map_scores (c @ w @ p @ d @ pl) = Inr ss"
    using map_scores_ok [OF ok] by blast
  then show ?thesis using sc by (simp add: aggregate_def)
qed

lemma statusCategories_Inr:
  assumes "statusCategories ls = Inr (c, w, p, d, pl)"
  shows "category ls ''Completed'' = Inr c" "category ls ''Watching'' = Inr w"
    "category ls ''Paused'' = Inr p" "category ls ''Dropped'' = Inr d"
    "category ls ''Planning'' = Inr pl"
proof -
  obtain c' where c: "category ls ''Completed'' = Inr c'"
    using assms by (cases "category ls ''Completed''") (simp_all add: statusCategories_def)
  obtain w' where w: "category ls ''Watching'' = Inr w'"
    using assms c by (cases "category ls ''Watching''") (simp_all add: statusCategories_def)
  obtain p' where p: "category ls ''Paused'' = Inr p'"
    using assms c w by (cases "category ls ''Paused''") (simp_all add: statusCategories_def)
  obtain d' where d: "category ls ''Dropped'' = Inr d'"
    using assms c w p by (cases "category ls ''Dropped''") (simp_all add: statusCategories_def)
  obtain pl' where pl: "category ls ''Planning'' = Inr pl'"
    using assms c w p d by (cases "category ls ''Planning''") (simp_all add: statusCategories_def)
  have "c' = c \<and> w' = w \<and> p' = p \<and> d' = d \<and> pl' = pl"
    using assms c w p d pl by (simp add: statusCategories_def)
  then show "category ls ''Completed'' = Inr c" "category ls ''Watching'' = Inr w"
    "category ls ''Paused'' = Inr p" "category ls ''Dropped'' = Inr d"
    "category ls ''Planning'' = Inr pl"
    using c w p d pl by simp_all
qed

lemma aggregate_Inr:
  assumes "aggregate lv = Inr st"
  obtains ls c w p d pl scores where
    "lv = Some ls"
    "statusCategories ls = Inr (c, w, p, d, pl)"
    "map_scores (c @ w @ p @ d @ pl) = Inr scores"
    "st = \<lparr>totalAnime = length (c @ w @ p @ d @ pl), completedAnime = length c,
           watchingAnime = length w, pausedAnime = length p, droppedAnime = length d,
           planningAnime = length pl, averageScore = average (validScores scores)\<rparr>"
proof -
  obtain ls where ls: "lv = Some ls"
    using assms by (cases lv) (simp_all add: aggregate_def)
  obtain cats where cats: "statusCategories ls = Inr cats"
    using assms ls by (cases "statusCategories ls") (simp_all add: aggregate_def)
  obtain c w p d pl where t: "cats = (c, w, p, d, pl)"
    by (cases cats) auto
  obtain scores where sc: "map_scores (c @ w @ p @ d @ pl) = Inr scores"
    using assms ls cats t
    by (cases "map_scores (c @ w @ p @ d @ pl)") (simp_all add: aggregate_def Let_def)
  have "st = \<lparr>totalAnime = length (c @ w @ p @ d @ pl), completedAnime = length c,
           watchingAnime = length w, pausedAnime = length p, droppedAnime = length d,
           planningAnime = length pl, averageScore = average (validScores scores)\<rparr>"
    using assms ls cats t sc by (simp add: aggregate_def Let_def)
  then show ?thesis using that ls cats t sc by blast
qed


text \<open>
  C4. Whenever the aggregation returns statistics, \<open>totalAnime\<close> is the sum of the
  five per-status counts; it does return on every well-formed response; and for an
  empty \<^verbatim>\<open>lists\<close> all counts are zero (and the average is the number 0).
\<close>

theorem total_is_sum_of_counts:
  "(well_formed ls \<longrightarrow> (\<exists>st'. aggregate (Some ls) = Inr st')) \<and>
   (aggregate lv = Inr st \<longrightarrow>
      totalAnime st =
        completedAnime st + watchingAnime st + pausedAnime st + droppedAnime st + planningAnime st) \<and>
   aggregate (Some []) =
     Inr \<lparr>totalAnime = 0, completedAnime = 0, watchingAnime = 0, pausedAnime = 0,
          droppedAnime = 0, planningAnime = 0, averageScore = Zero\<rparr>"
proof (intro conjI)
  show "well_formed ls \<longrightarrow> (\<exists>st'. aggregate (Some ls) = Inr st')"
    using aggregate_well_formed [of ls] by simp
  show "aggregate lv = Inr st \<longrightarrow>
      totalAnime st =
        completedAnime st + watchingAnime st + pausedAnime st + droppedAnime st + planningAnime st"
  proof
    assume "aggregate lv = Inr st"
    then show "totalAnime st =
        completedAnime st + watchingAnime st + pausedAnime st + droppedAnime st + planningAnime st"
      by (rule aggregate_Inr) simp
  qed
  show "aggregate (Some []) =
     Inr \<lparr>totalAnime = 0, completedAnime = 0, watchingAnime = 0, pausedAnime = 0,
          droppedAnime = 0, planningAnime = 0, averageScore = Zero\<rparr>"
    by (simp add: aggregate_def statusCategories_def category_def average_def validScores_def)
qed

lemma absent_counts:
  assumes "aggregate (Some ls) = Inr st"
  shows "\<not> has_list ls ''Completed'' \<Longrightarrow> completedAnime st = 0"
    and "\<not> has_list ls ''Watching'' \<Longrightarrow> watchingAnime st = 0"
    and "\<not> has_list ls ''Paused'' \<Longrightarrow> pausedAnime st = 0"
    and "\<not> has_list ls ''Dropped'' \<Longrightarrow> droppedAnime st = 0"
    and "\<not> has_list ls ''Planning'' \<Longrightarrow> planningAnime st = 0"
proof -
  from assms obtain ls' c w p d pl scores where
    ls': "Some ls = Some ls'" and sc: "statusCategories ls' = Inr (c, w, p, d, pl)" and
    st: "st = \<lparr>totalAnime = length (c @ w @ p @ d @ pl), completedAnime = length c,
           watchingAnime = length w, pausedAnime = length p, droppedAnime = length d,
           planningAnime = length pl, averageScore = average (validScores scores)\<rparr>"
    by (rule aggregate_Inr)
  from ls' sc have sc': "statusCategories ls = Inr (c, w, p, d, pl)" by simp
  show "\<not> has_list ls ''Completed'' \<Longrightarrow> completedAnime st = 0"
    using category_absent [OF statusCategories_Inr(1) [OF sc']] by (simp add: st)
  show "\<not> has_list ls ''Watching'' \<Longrightarrow> watchingAnime st = 0"
    using category_absent [OF statusCategories_Inr(2) [OF sc']] by (simp add: st)
  show "\<not> has_list ls ''Paused'' \<Longrightarrow> pausedAnime st = 0"
    using category_absent [OF statusCategories_Inr(3) [OF sc']] by (simp add: st)
  show "\<not> has_list ls ''Dropped'' \<Longrightarrow> droppedAnime st = 0"
    using category_absent [OF statusCategories_Inr(4) [OF sc']] by (simp add: st)
  show "\<not> has_list ls ''Planning'' \<Longrightarrow> planningAnime st = 0"
    using category_absent [OF statusCategories_Inr(5) [OF sc']] by (simp add: st)
qed

text \<open>
  C5, as the code has it. On a well-formed response the aggregation returns
  statistics; whenever it returns, a status whose name is absent from the response
  has count zero; an empty \<^verbatim>\<open>lists\<close> gives all-zero counts and the average 0,
  shown as N/A; but when \<^verbatim>\<open>lists\<close> itself is \<^verbatim>\<open>null\<close> or missing,
  \<^verbatim>\<open>lists.find\<close> throws a \<^verbatim>\<open>TypeError\<close>.
\<close>

theorem aggregate_defaults:
  "(well_formed ls \<longrightarrow> (\<exists>st. aggregate (Some ls) = Inr st)) \<and>
   (aggregate (Some ls) = Inr st \<longrightarrow>
      (\<not> has_list ls ''Completed'' \<longrightarrow> completedAnime st = 0) \<and>
      (\<not> has_list ls ''Watching'' \<longrightarrow> watchingAnime st = 0) \<and>
      (\<not> has_list ls ''Paused'' \<longrightarrow> pausedAnime st = 0) \<and>
      (\<not> has_list ls ''Dropped'' \<longrightarrow> droppedAnime st = 0) \<and>
      (\<not> has_list ls ''Planning'' \<longrightarrow> planningAnime st = 0)) \<and>
   aggregate (Some []) =
     Inr \<lparr>totalAnime = 0, completedAnime = 0, watchingAnime = 0, pausedAnime = 0,
          droppedAnime = 0, planningAnime = 0, averageScore = Zero\<rparr> \<and>
   average_field Zero = NA \<and>
   aggregate None = Inl TypeError"
proof -
  have e: "aggregate (Some []) =
     Inr \<lparr>totalAnime = 0, completedAnime = 0, watchingAnime = 0, pausedAnime = 0,
          droppedAnime = 0, planningAnime = 0, averageScore = Zero\<rparr>"
    by (simp add: aggregate_def statusCategories_def category_def average_def validScores_def)
  have n: "aggregate None = Inl TypeError" "average_field Zero = NA"
    by (simp_all add: aggregate_def average_field_def)
  have w: "well_formed ls \<longrightarrow> (\<exists>st. aggregate (Some ls) = Inr st)"
    using aggregate_well_formed [of ls] by simp
  show ?thesis
    using w absent_counts [of ls st] e n by blast
qed



lemma to_double_numeral:
  "(numeral n :: int) < 2 ^ 53 \<Longrightarrow> to_double (numeral n) = Fin (numeral n)"
  using to_double_of_int [of "numeral n"] by simp

lemma to_double_zero: "to_double 0 = Fin 0"
  by (simp add: to_double_def)

lemma to_double_one: "to_double 1 = Fin 1"
  using to_double_of_int [of 1] by simp

lemma floor_numeral_div:
  "\<lfloor>numeral a / numeral b :: rat\<rfloor> = numeral a div numeral b"
  using floor_divide_of_int_eq [of "numeral a" "numeral b", where ?'a = rat] by simp

lemmas aggregate_eval = floor_numeral_div
  aggregate_def statusCategories_def category_def scored_list_def entry_score_def
  validScores_def average_def all_scores_def to_double_numeral to_double_zero to_double_one



lemma alice_aggregate:
  "aggregate (Some alice_lists) =
     Inr \<lparr>totalAnime = 2, completedAnime = 1, watchingAnime = 1, pausedAnime = 0,
          droppedAnime = 0, planningAnime = 0, averageScore = Text (Digits False 8500)\<rparr>"
  by (simp add: aggregate_eval alice_lists_def)


section \<open>Traces of the handlers\<close>

text \<open>
  The trace of a handler started on a fresh interaction is the list of events
  written out by \<open>stats_handler_events\<close> and \<open>cover_handler_events\<close>.
\<close>

lemma case_bool_pair:
  "(case p of (True, s) \<Rightarrow> f s | (False, s) \<Rightarrow> g s) = (if fst p then f (snd p) else g (snd p))"
  by (cases p) (simp split: bool.splits)

lemma deferReply_sel:
  "fst (deferReply env s) = sink_ok env (calls s)"
  "trace (snd (deferReply env s)) = trace s @ [DeferReply (sink_ok env (calls s))]"
  "calls (snd (deferReply env s)) = Suc (calls s)"
  "deferred (snd (deferReply env s)) = (deferred s \<or> sink_ok env (calls s))"
  "replied (snd (deferReply env s)) = replied s"
  by (simp_all add: deferReply_def)

lemma editReply_sel:
  "fst (editReply env p s) = sink_ok env (calls s)"
  "trace (snd (editReply env p s)) = trace s @ [EditReply p (sink_ok env (calls s))]"
  "calls (snd (editReply env p s)) = Suc (calls s)"
  "deferred (snd (editReply env p s)) = deferred s"
  "replied (snd (editReply env p s)) = (replied s \<or> sink_ok env (calls s))"
  by (simp_all add: editReply_def)

lemma reply_sel:
  "fst (reply env p s) = sink_ok env (calls s)"
  "trace (snd (reply env p s)) = trace s @ [Reply p (sink_ok env (calls s))]"
  "calls (snd (reply env p s)) = Suc (calls s)"
  "deferred (snd (reply env p s)) = deferred s"
  "replied (snd (reply env p s)) = (replied s \<or> sink_ok env (calls s))"
  by (simp_all add: reply_def)

lemma emit_sel:
  "trace (emit evs s) = trace s @ evs"
  "calls (emit evs s) = calls s"
  "deferred (emit evs s) = deferred s"
  "replied (emit evs s) = replied s"
  by (simp_all add: emit_def)

lemma fresh_sel:
  "trace fresh = []" "calls fresh = 0" "\<not> deferred fresh" "\<not> replied fresh"
  by (simp_all add: fresh_def)

lemmas sel = case_bool_pair deferReply_sel editReply_sel reply_sel emit_sel fresh_sel

lemma last_resort_trace:
  "\<not> replied s \<Longrightarrow>
   trace (last_resort env m p s) = trace s @ last_resort_events env m p (deferred s) (calls s)"
  by (simp add: last_resort_def last_resort_events_def Let_def sel)

lemma attempt_trace:
  "\<not> replied s \<Longrightarrow> deferred s \<Longrightarrow>
   trace (case editReply env p s of (True, s') \<Rightarrow> s' | (False, s') \<Rightarrow> last_resort env m q s')
     = trace s @ attempt_events env p m q (calls s)"
  by (simp add: attempt_events_def last_resort_trace sel)



lemma cover_reply_trace:
  assumes "\<not> replied s" "deferred s"
  shows "trace (cover_reply env u n r s) = trace s @ cover_reply_events env u n r (calls s)"
proof -
  have a: "trace (case editReply env p (emit evs s) of
                    (True, s') \<Rightarrow> s' | (False, s') \<Rightarrow> cover_command_failed env s')
             = trace s @ evs @ attempt_events env p ''Critical error in anime cover command'' CoverErrorMsg (calls s)"
    for p evs
    unfolding cover_command_failed_def using assms
    by (simp add: attempt_trace emit_sel)
  have l: "trace (cover_command_failed env (emit evs s))
             = trace s @ evs @ last_resort_events env ''Critical error in anime cover command'' CoverErrorMsg True (calls s)"
    for evs
    unfolding cover_command_failed_def using assms
    by (simp add: last_resort_trace emit_sel)
  have l0: "trace (cover_command_failed env s)
             = trace s @ last_resort_events env ''Critical error in anime cover command'' CoverErrorMsg True (calls s)"
    unfolding cover_command_failed_def using assms
    by (simp add: last_resort_trace)
  show ?thesis
    by (cases r; cases "title_ok env"; cases "embed_ok env";
        simp add: cover_reply_def cover_reply_events_def a l l0 split: nullable.splits)
qed


lemma cover_handler_trace:
  "trace (handleAnimeCoverCommand env cmd fresh) = cover_handler_events env cmd"
proof -
  define s1 where "s1 = snd (deferReply env fresh)"
  have d: "deferReply env fresh = (sink_ok env 0, s1)"
    by (simp add: s1_def deferReply_def fresh_def)
  have s1: "trace s1 = [DeferReply (sink_ok env 0)]" "calls s1 = 1" "\<not> replied s1"
    "deferred s1 = sink_ok env 0"
    by (simp_all add: s1_def sel)
  show ?thesis
  proof (cases "sink_ok env 0")
    case False
    then show ?thesis using s1
      by (simp add: handleAnimeCoverCommand_def cover_handler_events_def d cover_command_failed_def
            last_resort_trace)
  next
    case ok: True
    have inv: "trace (case editReply env CoverInvalidId s1 of
                 (True, s2) \<Rightarrow> s2 | (False, s2) \<Rightarrow> cover_command_failed env s2)
               = trace s1 @ attempt_events env CoverInvalidId
                   ''Critical error in anime cover command'' CoverErrorMsg 1"
      unfolding cover_command_failed_def
      using s1 ok by (simp add: attempt_trace)
    show ?thesis
    proof (cases "option_animeid cmd")
      case None
      then show ?thesis using ok inv s1
        by (simp add: handleAnimeCoverCommand_def cover_handler_events_def d)
    next
      case (Some str)
      show ?thesis
      proof (cases "str = [] \<or> isNaN (parseInt str)")
        case True
        then show ?thesis using ok inv s1 Some
          by (auto simp add: handleAnimeCoverCommand_def cover_handler_events_def d)
      next
        case False
        obtain r evs where f: "fetchAnimeCoverById env (parseInt str) (user_username cmd) = (r, evs)"
          by (cases "fetchAnimeCoverById env (parseInt str) (user_username cmd)") auto
        have "trace (cover_reply env (user_username cmd) (parseInt str) r (emit evs s1))
                = trace (emit evs s1) @
                  cover_reply_events env (user_username cmd) (parseInt str) r (calls (emit evs s1))"
          using s1 ok by (intro cover_reply_trace) (simp_all add: emit_sel)
        then show ?thesis using ok s1 Some False f
          by (simp add: handleAnimeCoverCommand_def cover_handler_events_def d emit_sel)
      qed
    qed
  qed
qed



lemma fetch_cover_events:
  "filter is_sink (snd (fetchAnimeCoverById env n u)) = []"
  "filter is_http (snd (fetchAnimeCoverById env n u)) = [HttpPost (CoverQuery n)]"
  by (cases "cover_api env n"; simp add: fetchAnimeCoverById_def)+

lemma last_resort_sinks:
  "filter is_sink (last_resort_events env m p d k) =
     [if d then EditReply p (sink_ok env k) else Reply p (sink_ok env k)]"
  by (simp add: last_resort_events_def)

lemma attempt_sinks:
  "filter is_sink (attempt_events env p m q k) =
     EditReply p (sink_ok env k) # (if sink_ok env k then [] else [EditReply q (sink_ok env (Suc k))])"
  by (simp add: attempt_events_def last_resort_sinks)



lemma cover_reply_sinks:
  "filter is_sink (cover_reply_events env u n r k) =
     (case r of
        Inl e \<Rightarrow> [EditReply CoverErrorMsg (sink_ok env k)]
      | Inr Null \<Rightarrow>
          EditReply CoverNotFound (sink_ok env k) #
          (if sink_ok env k then [] else [EditReply CoverErrorMsg (sink_ok env (Suc k))])
      | Inr (Val url) \<Rightarrow>
          if url = []
          then EditReply CoverNotFound (sink_ok env k) #
               (if sink_ok env k then [] else [EditReply CoverErrorMsg (sink_ok env (Suc k))])
          else if title_ok env \<and> embed_ok env
          then EditReply (CoverEmbed n url) (sink_ok env k) #
               (if sink_ok env k then [] else [EditReply CoverErrorMsg (sink_ok env (Suc k))])
          else [EditReply CoverErrorMsg (sink_ok env k)])"
  by (cases "title_ok env"; cases "embed_ok env";
      simp add: cover_reply_events_def attempt_sinks last_resort_sinks split: sum.splits nullable.splits)


lemma cover_handler_sinks:
  "filter is_sink (cover_handler_events env cmd) =
     DeferReply (sink_ok env 0) #
     (if \<not> sink_ok env 0 then [Reply CoverErrorMsg (sink_ok env 1)]
      else case option_animeid cmd of
             None \<Rightarrow> filter is_sink (attempt_events env CoverInvalidId
                        ''Critical error in anime cover command'' CoverErrorMsg 1)
           | Some str \<Rightarrow>
               if str = [] \<or> isNaN (parseInt str)
               then filter is_sink (attempt_events env CoverInvalidId
                      ''Critical error in anime cover command'' CoverErrorMsg 1)
               else filter is_sink (cover_reply_events env (user_username cmd) (parseInt str)
                      (fst (fetchAnimeCoverById env (parseInt str) (user_username cmd))) 1))"
  by (simp add: cover_handler_events_def last_resort_sinks fetch_cover_events split: option.splits)






lemma to_double_neg_numeral:
  "(numeral n :: int) < 2 ^ 53 \<Longrightarrow> to_double (- numeral n) = Fin (- numeral n)"
  using to_double_of_int [of "- numeral n"] by simp

lemmas parseInt_eval = parseInt_def isNaN_def is_white_space_def digit_value_def is_digit_def
  digits_value_def Let_def to_double_numeral to_double_neg_numeral to_double_zero

section \<open>The reply discipline and the validation of the cover id\<close>

lemma parseInt_examples:
  "parseInt ''21'' = Fin 21" "parseInt ''-5'' = Fin (- 5)" "parseInt ''abc'' = NaN"
  "parseInt ''0'' = Fin 0"
  by (simp_all add: parseInt_eval)

lemma handler_http:
  "filter is_http (last_resort_events env m p d k) = []"
  "filter is_http (attempt_events env p m q k) = []"
  "filter is_http (cover_reply_events env u n r k) = []"
  by (simp_all add: last_resort_events_def attempt_events_def cover_reply_events_def
        split: sum.splits nullable.splits)

lemma cover_handler_http:
  "filter is_http (trace (handleAnimeCoverCommand env cmd fresh)) =
     (case option_animeid cmd of
        None \<Rightarrow> []
      | Some str \<Rightarrow>
          if sink_ok env 0 \<and> str \<noteq> [] \<and> \<not> isNaN (parseInt str)
          then [HttpPost (CoverQuery (parseInt str))] else [])"
  by (simp add: cover_handler_trace cover_handler_events_def handler_http fetch_cover_events
        split: option.splits)







text \<open>
  C8, as the code has it. When the id is missing, empty or \<^verbatim>\<open>parseInt\<close> of it is
  \<^verbatim>\<open>NaN\<close>, no request is made, and (the calls on the interaction resolving)
  the calls are the acknowledgment and the validation message. A request is made
  only for a non-empty id of which \<^verbatim>\<open>parseInt\<close> is a number, and it is built
  from that number.
\<close>

theorem cover_validation:
  "(invalid_id (option_animeid cmd) \<longrightarrow>
      filter is_http (trace (handleAnimeCoverCommand env cmd fresh)) = [] \<and>
      (sink_ok env 0 \<and> sink_ok env 1 \<longrightarrow>
         filter is_sink (trace (handleAnimeCoverCommand env cmd fresh))
           = [DeferReply True, EditReply CoverInvalidId True])) \<and>
   (HttpPost q \<in> set (trace (handleAnimeCoverCommand env cmd fresh)) \<longrightarrow>
      (\<exists>str. option_animeid cmd = Some str \<and> str \<noteq> [] \<and> \<not> isNaN (parseInt str) \<and>
             q = CoverQuery (parseInt str)))"
proof (intro conjI impI)
  assume "invalid_id (option_animeid cmd)"
  then show "filter is_http (trace (handleAnimeCoverCommand env cmd fresh)) = []"
    by (auto simp: cover_handler_http invalid_id_def split: option.splits)
next
  assume "invalid_id (option_animeid cmd)" and "sink_ok env 0 \<and> sink_ok env 1"
  then show "filter is_sink (trace (handleAnimeCoverCommand env cmd fresh))
           = [DeferReply True, EditReply CoverInvalidId True]"
    unfolding cover_handler_trace cover_handler_sinks
    by (auto simp: invalid_id_def attempt_sinks split: option.splits)
next
  assume "HttpPost q \<in> set (trace (handleAnimeCoverCommand env cmd fresh))"
  then have "HttpPost q \<in> set (filter is_http (trace (handleAnimeCoverCommand env cmd fresh)))"
    by simp
  then show "\<exists>str. option_animeid cmd = Some str \<and> str \<noteq> [] \<and> \<not> isNaN (parseInt str) \<and>
             q = CoverQuery (parseInt str)"
    unfolding cover_handler_http by (cases "option_animeid cmd") (auto split: if_splits)
qed

text \<open>
  The id \<open>abc\<close> is refused; the id \<open>21\<close> is looked up.
\<close>

theorem cover_validation_witness:
  "invalid_id (option_animeid cmd_abc) \<and>
   filter is_http (trace (handleAnimeCoverCommand env_ok cmd_abc fresh)) = [] \<and>
   filter is_sink (trace (handleAnimeCoverCommand env_ok cmd_abc fresh))
     = [DeferReply True, EditReply CoverInvalidId True] \<and>
   HttpPost (CoverQuery (Fin 21)) \<in> set (trace (handleAnimeCoverCommand env_ok cmd_alice fresh)) \<and>
   (\<exists>str. option_animeid cmd_alice = Some str \<and> str \<noteq> [] \<and> \<not> isNaN (parseInt str) \<and>
          CoverQuery (Fin 21) = CoverQuery (parseInt str))"
proof -
  have i: "invalid_id (option_animeid cmd_abc)"
    by (simp add: invalid_id_def cmd_abc_def parseInt_examples isNaN_def)
  have s: "sink_ok env_ok 0 \<and> sink_ok env_ok 1" by (simp add: env_ok_def)
  have "filter is_http (trace (handleAnimeCoverCommand env_ok cmd_alice fresh))
          = [HttpPost (CoverQuery (Fin 21))]"
    by (simp add: cover_handler_http cmd_alice_def env_ok_def parseInt_examples isNaN_def)
  then have "HttpPost (CoverQuery (Fin 21)) \<in> set (filter is_http (trace (handleAnimeCoverCommand env_ok cmd_alice fresh)))"
    by simp
  then have m: "HttpPost (CoverQuery (Fin 21)) \<in> set (trace (handleAnimeCoverCommand env_ok cmd_alice fresh))"
    by simp
  show ?thesis
    using cover_validation [where cmd = cmd_abc and env = env_ok]
      cover_validation [where cmd = cmd_alice and env = env_ok and q = "CoverQuery (Fin 21)"]
      i s m by blast
qed

text \<open>
  C8 as stated has the id validated as a positive integer. The id \<open>-5\<close> passes the
  validation: the lookup is made with \<open>-5\<close> and its cover is sent.
\<close>

theorem negative_id_counterexample:
  "\<not> invalid_id (option_animeid cmd_negative) \<and>
   parseInt ''-5'' = Fin (- 5) \<and>
   filter is_http (trace (handleAnimeCoverCommand env_ok cmd_negative fresh))
     = [HttpPost (CoverQuery (Fin (- 5)))] \<and>
   filter is_sink (trace (handleAnimeCoverCommand env_ok cmd_negative fresh))
     = [DeferReply True, EditReply (CoverEmbed (Fin (- 5)) ''https://img/21.jpg'') True]"
proof -
  have p: "parseInt ''-5'' = Fin (- 5)" by (rule parseInt_examples)
  have i: "\<not> invalid_id (option_animeid cmd_negative)"
    by (simp add: invalid_id_def cmd_negative_def p isNaN_def)
  have h: "filter is_http (trace (handleAnimeCoverCommand env_ok cmd_negative fresh))
     = [HttpPost (CoverQuery (Fin (- 5)))]"
    by (simp add: cover_handler_http cmd_negative_def env_ok_def p isNaN_def)
  have f: "fst (fetchAnimeCoverById env_ok (Fin (- 5)) ''alice'') = Inr (Val ''https://img/21.jpg'')"
    by (simp add: fetchAnimeCoverById_def env_ok_def cover_url_def)
  have s: "filter is_sink (trace (handleAnimeCoverCommand env_ok cmd_negative fresh))
     = [DeferReply True, EditReply (CoverEmbed (Fin (- 5)) ''https://img/21.jpg'') True]"
    unfolding cover_handler_trace cover_handler_sinks
    using f by (simp add: cmd_negative_def p isNaN_def cover_reply_sinks env_ok_def)
  show ?thesis using p i h s by blast
qed

section \<open>The stats cache and the cover lookup\<close>

lemma svc_same: "svc\<lparr>stats_cache := stats_cache svc\<rparr> = svc"
  by simp

text \<open>
  C6. When the cache holds an entry for \<open>stats_<username>\<close> with a stored value,
  not expired at the read, the fetch returns that value, leaves the service as it
  is and makes no request: its only call is \<^verbatim>\<open>trackCacheHit\<close>. When a fetch
  misses and succeeds, it makes one request, and a second fetch whose read is within
  the ttl of the write returns the same value with no request.
\<close>

theorem cache_hit_skips_upstream:
  "(cache (stats_cache svc) (''stats_'' @ u) = Some en \<and> entry_value en = Val st \<and>
    now_get env - timestamp en \<le> ttl (stats_cache svc) \<longrightarrow>
      fetchUserAnimeStats env svc u = (Inr (Val st), svc, [TrackCacheHit ''anime_stats''])) \<and>
   (fst (CacheService_get (stats_cache svc) (now_get env) (''stats_'' @ u)) = Null \<and>
    stats_of_response u (stats_api env u) = Inr st \<and>
    now_get env' - now_set env \<le> ttl (stats_cache svc) \<longrightarrow>
      fst (fetchUserAnimeStats env svc u) = Inr (Val st) \<and>
      snd (snd (fetchUserAnimeStats env svc u)) = [HttpPost (StatsQuery u)] \<and>
      fetchUserAnimeStats env' (fst (snd (fetchUserAnimeStats env svc u))) u
        = (Inr (Val st), fst (snd (fetchUserAnimeStats env svc u)), [TrackCacheHit ''anime_stats'']))"
proof (intro conjI impI)
  assume "cache (stats_cache svc) (''stats_'' @ u) = Some en \<and> entry_value en = Val st \<and>
    now_get env - timestamp en \<le> ttl (stats_cache svc)"
  then show "fetchUserAnimeStats env svc u = (Inr (Val st), svc, [TrackCacheHit ''anime_stats''])"
    by (simp add: fetchUserAnimeStats_def CacheService_get_def)
next
  assume a: "fst (CacheService_get (stats_cache svc) (now_get env) (''stats_'' @ u)) = Null \<and>
    stats_of_response u (stats_api env u) = Inr st \<and>
    now_get env' - now_set env \<le> ttl (stats_cache svc)"
  obtain c1 where g: "CacheService_get (stats_cache svc) (now_get env) (''stats_'' @ u) = (Null, c1)"
    using a by (cases "CacheService_get (stats_cache svc) (now_get env) (''stats_'' @ u)") auto
  have t: "ttl c1 = ttl (stats_cache svc)"
    using g by (auto simp: CacheService_get_def split: option.splits if_splits)
  have f: "fetchUserAnimeStats env svc u =
      (Inr (Val st), svc\<lparr>stats_cache := snd (CacheService_set c1 (now_set env) (''stats_'' @ u) (Val st))\<rparr>,
       [HttpPost (StatsQuery u)])"
    using a g by (simp add: fetchUserAnimeStats_def CacheService_set_def)
  show "fst (fetchUserAnimeStats env svc u) = Inr (Val st)"
    and "snd (snd (fetchUserAnimeStats env svc u)) = [HttpPost (StatsQuery u)]"
    by (simp_all add: f)
  have "CacheService_get (snd (CacheService_set c1 (now_set env) (''stats_'' @ u) (Val st)))
          (now_get env') (''stats_'' @ u)
        = (Val st, snd (CacheService_set c1 (now_set env) (''stats_'' @ u) (Val st)))"
    using a t by (simp add: get_after_set)
  then show "fetchUserAnimeStats env' (fst (snd (fetchUserAnimeStats env svc u))) u
        = (Inr (Val st), fst (snd (fetchUserAnimeStats env svc u)), [TrackCacheHit ''anime_stats''])"
    unfolding f by (simp add: fetchUserAnimeStats_def)
qed

lemma alice_response:
  "stats_of_response ''alice'' (stats_api env_ok ''alice'') = Inr alice_stats"
  by (simp add: stats_of_response_def env_ok_def alice_stats_def aggregate_eval alice_lists_def)

text \<open>
  Two fetches for \<open>alice\<close> on a new service, the second 199 seconds later; and a
  fetch on a service that holds an entry for \<open>alice\<close> written 1000 ms before.
\<close>

theorem cache_hit_skips_upstream_witness:
  "fst (fetchUserAnimeStats env_ok AnimeStatsService_new ''alice'') = Inr (Val alice_stats) \<and>
   snd (snd (fetchUserAnimeStats env_ok AnimeStatsService_new ''alice'')) = [HttpPost (StatsQuery ''alice'')] \<and>
   fetchUserAnimeStats (env_ok\<lparr>now_get := 200000\<rparr>)
       (fst (snd (fetchUserAnimeStats env_ok AnimeStatsService_new ''alice''))) ''alice''
     = (Inr (Val alice_stats), fst (snd (fetchUserAnimeStats env_ok AnimeStatsService_new ''alice'')),
        [TrackCacheHit ''anime_stats'']) \<and>
   cache (stats_cache svc_stale) (''stats_'' @ ''alice'')
     = Some \<lparr>entry_value = Val alice_stats, timestamp = 0\<rparr> \<and>
   now_get env_ok - 0 \<le> ttl (stats_cache svc_stale) \<and>
   fetchUserAnimeStats env_ok svc_stale ''alice''
     = (Inr (Val alice_stats), svc_stale, [TrackCacheHit ''anime_stats''])"
proof -
  have h: "cache (stats_cache svc_stale) (''stats_'' @ ''alice'')
             = Some \<lparr>entry_value = Val alice_stats, timestamp = 0\<rparr>"
    "entry_value \<lparr>entry_value = Val alice_stats, timestamp = 0\<rparr> = Val alice_stats"
    "now_get env_ok - timestamp \<lparr>entry_value = Val alice_stats, timestamp = 0\<rparr>
       \<le> ttl (stats_cache svc_stale)"
    "now_get env_ok - 0 \<le> ttl (stats_cache svc_stale)"
    by (simp_all add: svc_stale_def env_ok_def)
  have m: "fst (CacheService_get (stats_cache AnimeStatsService_new) (now_get env_ok) (''stats_'' @ ''alice'')) = Null"
    by (simp add: AnimeStatsService_new_def CacheService_default_def CacheService_new_def
          CacheService_get_def)
  have t: "now_get (env_ok\<lparr>now_get := 200000\<rparr>) - now_set env_ok \<le> ttl (stats_cache AnimeStatsService_new)"
    by (simp add: env_ok_def AnimeStatsService_new_def CacheService_default_def CacheService_new_def)
  show ?thesis
    using cache_hit_skips_upstream [where svc = AnimeStatsService_new and env = env_ok
        and u = "''alice''" and st = alice_stats and env' = "env_ok\<lparr>now_get := 200000\<rparr>"]
      cache_hit_skips_upstream [where svc = svc_stale and env = env_ok and u = "''alice''"
        and st = alice_stats and en = "\<lparr>entry_value = Val alice_stats, timestamp = 0\<rparr>"]
      m t alice_response h
    by blast
qed

text \<open>
  C7. The cover lookup makes one request. It throws what \<^verbatim>\<open>axios.post\<close>
  rejected with (it does not return \<^verbatim>\<open>null\<close> then); it returns \<^verbatim>\<open>null\<close> when
  the response has no \<^verbatim>\<open>Media\<close>, and also when the body, the cover image or its
  URL is missing or the URL is the empty string; it returns the URL when the
  response has one (a non-empty string).
\<close>

theorem cover_lookup_results:
  "(cover_api env n = Rejected e \<longrightarrow>
      fst (fetchAnimeCoverById env n u) = Inl e \<and>
      filter is_http (snd (fetchAnimeCoverById env n u)) = [HttpPost (CoverQuery n)]) \<and>
   (cover_api env n = Resolved (Some \<lparr>data_Media = None\<rparr>) \<longrightarrow>
      fetchAnimeCoverById env n u = (Inr Null, [HttpPost (CoverQuery n)])) \<and>
   (cover_api env n = Resolved d \<and>
    (d = None \<or>
     d = Some \<lparr>data_Media = Some \<lparr>media_coverImage = None\<rparr>\<rparr> \<or>
     d = Some \<lparr>data_Media = Some \<lparr>media_coverImage = Some \<lparr>image_extraLarge = None\<rparr>\<rparr>\<rparr> \<or>
     d = Some \<lparr>data_Media = Some \<lparr>media_coverImage = Some \<lparr>image_extraLarge = Some []\<rparr>\<rparr>\<rparr>) \<longrightarrow>
      fetchAnimeCoverById env n u = (Inr Null, [HttpPost (CoverQuery n)])) \<and>
   (cover_api env n =
      Resolved (Some \<lparr>data_Media = Some \<lparr>media_coverImage = Some \<lparr>image_extraLarge = Some url\<rparr>\<rparr>\<rparr>) \<and>
    url \<noteq> [] \<longrightarrow>
      fetchAnimeCoverById env n u = (Inr (Val url), [HttpPost (CoverQuery n)]))"
  by (auto simp: fetchAnimeCoverById_def cover_url_def)

text \<open>
  The cases of a rejected request, of a response without \<^verbatim>\<open>Media\<close>, of a
  response without body and of a response with a URL, for the ids 21 and 999999.
\<close>

theorem cover_lookup_results_witness:
  "fst (fetchAnimeCoverById env_upstream_down (Fin 21) ''alice'') = Inl (AxiosError ''ECONNRESET'') \<and>
   fetchAnimeCoverById (env_ok\<lparr>cover_api := (\<lambda>n. Resolved (Some \<lparr>data_Media = None\<rparr>))\<rparr>) (Fin 999999) ''alice''
     = (Inr Null, [HttpPost (CoverQuery (Fin 999999))]) \<and>
   fetchAnimeCoverById (env_ok\<lparr>cover_api := (\<lambda>n. Resolved None)\<rparr>) (Fin 21) ''alice''
     = (Inr Null, [HttpPost (CoverQuery (Fin 21))]) \<and>
   fetchAnimeCoverById env_ok (Fin 21) ''alice''
     = (Inr (Val ''https://img/21.jpg''), [HttpPost (CoverQuery (Fin 21))])"
  using cover_lookup_results [where env = env_upstream_down and n = "Fin 21"
          and e = "AxiosError ''ECONNRESET''" and u = "''alice''"]
        cover_lookup_results [where env = "env_ok\<lparr>cover_api := (\<lambda>n. Resolved (Some \<lparr>data_Media = None\<rparr>))\<rparr>"
          and n = "Fin 999999" and u = "''alice''"]
        cover_lookup_results [where env = "env_ok\<lparr>cover_api := (\<lambda>n. Resolved None)\<rparr>"
          and n = "Fin 21" and u = "''alice''" and d = None]
        cover_lookup_results [where env = env_ok and n = "Fin 21" and u = "''alice''"
          and url = "''https://img/21.jpg''"]
  by (simp add: env_upstream_down_def env_ok_def)

text \<open>
  C9, as the code has it. When the fetch throws, it has written no entry: the ttl
  and every other key are as before, the entry of \<open>stats_<username>\<close> is as before
  or has been removed (the read removes an expired entry before the request is
  made), and a later read of that key, at any time, finds nothing.
\<close>

theorem failed_fetch_writes_nothing:
  "fst (fetchUserAnimeStats env svc u) = Inl e \<longrightarrow>
     ttl (stats_cache (fst (snd (fetchUserAnimeStats env svc u)))) = ttl (stats_cache svc) \<and>
     (\<forall>k. k \<noteq> ''stats_'' @ u \<longrightarrow>
        cache (stats_cache (fst (snd (fetchUserAnimeStats env svc u)))) k = cache (stats_cache svc) k) \<and>
     (cache (stats_cache (fst (snd (fetchUserAnimeStats env svc u)))) (''stats_'' @ u)
        = cache (stats_cache svc) (''stats_'' @ u) \<or>
      cache (stats_cache (fst (snd (fetchUserAnimeStats env svc u)))) (''stats_'' @ u) = None) \<and>
     (\<forall>t. fst (CacheService_get (stats_cache (fst (snd (fetchUserAnimeStats env svc u)))) t
                (''stats_'' @ u)) = Null)"
proof
  assume a: "fst (fetchUserAnimeStats env svc u) = Inl e"
  obtain v c1 where g: "CacheService_get (stats_cache svc) (now_get env) (''stats_'' @ u) = (v, c1)"
    by (cases "CacheService_get (stats_cache svc) (now_get env) (''stats_'' @ u)") auto
  have v: "v = Null" using a g by (cases v) (simp_all add: fetchUserAnimeStats_def)
  have r: "stats_of_response u (stats_api env u) = Inl e"
    using a g v by (cases "stats_of_response u (stats_api env u)")
      (simp_all add: fetchUserAnimeStats_def CacheService_set_def)
  have f: "fst (snd (fetchUserAnimeStats env svc u)) = svc\<lparr>stats_cache := c1\<rparr>"
    using g v r by (simp add: fetchUserAnimeStats_def)
  have c1: "ttl c1 = ttl (stats_cache svc)"
    "\<forall>k. k \<noteq> ''stats_'' @ u \<longrightarrow> cache c1 k = cache (stats_cache svc) k"
    "cache c1 (''stats_'' @ u) = cache (stats_cache svc) (''stats_'' @ u) \<or> cache c1 (''stats_'' @ u) = None"
    "\<forall>t. fst (CacheService_get c1 t (''stats_'' @ u)) = Null"
    using g v by (auto simp: CacheService_get_def split: option.splits if_splits)
  show "ttl (stats_cache (fst (snd (fetchUserAnimeStats env svc u)))) = ttl (stats_cache svc) \<and>
     (\<forall>k. k \<noteq> ''stats_'' @ u \<longrightarrow>
        cache (stats_cache (fst (snd (fetchUserAnimeStats env svc u)))) k = cache (stats_cache svc) k) \<and>
     (cache (stats_cache (fst (snd (fetchUserAnimeStats env svc u)))) (''stats_'' @ u)
        = cache (stats_cache svc) (''stats_'' @ u) \<or>
      cache (stats_cache (fst (snd (fetchUserAnimeStats env svc u)))) (''stats_'' @ u) = None) \<and>
     (\<forall>t. fst (CacheService_get (stats_cache (fst (snd (fetchUserAnimeStats env svc u)))) t
                (''stats_'' @ u)) = Null)"
    unfolding f using c1 by simp
qed

lemma stale_fetch:
  "fetchUserAnimeStats env_late_down svc_stale ''alice'' =
     (Inl (AxiosError ''ECONNRESET''),
      \<lparr>stats_cache = \<lparr>cache = Map.empty, ttl = 300000\<rparr>\<rparr>,
      [HttpPost (StatsQuery ''alice''), TrackError ''fetch_failure'' ''anime_stats'',
       LoggerError ''Anime stats fetch failed''])"
  by (simp add: fetchUserAnimeStats_def env_late_down_def env_upstream_down_def env_ok_def
        svc_stale_def CacheService_get_def stats_of_response_def)

text \<open>
  A fetch for \<open>alice\<close> with the upstream down, on a service with a stale entry.
\<close>

theorem failed_fetch_writes_nothing_witness:
  "fst (fetchUserAnimeStats env_late_down svc_stale ''alice'') = Inl (AxiosError ''ECONNRESET'') \<and>
   ttl (stats_cache (fst (snd (fetchUserAnimeStats env_late_down svc_stale ''alice''))))
     = ttl (stats_cache svc_stale) \<and>
   (\<forall>t. fst (CacheService_get (stats_cache (fst (snd (fetchUserAnimeStats env_late_down svc_stale ''alice''))))
            t (''stats_'' @ ''alice'')) = Null)"
proof -
  have "fst (fetchUserAnimeStats env_late_down svc_stale ''alice'') = Inl (AxiosError ''ECONNRESET'')"
    by (simp add: stale_fetch)
  with failed_fetch_writes_nothing [where env = env_late_down and svc = svc_stale
      and u = "''alice''" and e = "AxiosError ''ECONNRESET''"]
  show ?thesis by blast
qed

text \<open>
  C9 as stated has the cache unchanged by a fetch that throws. The read at the
  start of the fetch removes an expired entry, and the service is not the same
  afterwards.
\<close>

theorem stale_entry_evicted_counterexample:
  "fst (fetchUserAnimeStats env_late_down svc_stale ''alice'') = Inl (AxiosError ''ECONNRESET'') \<and>
   cache (stats_cache svc_stale) ''stats_alice''
     = Some \<lparr>entry_value = Val alice_stats, timestamp = 0\<rparr> \<and>
   cache (stats_cache (fst (snd (fetchUserAnimeStats env_late_down svc_stale ''alice'')))) ''stats_alice''
     = None \<and>
   fst (snd (fetchUserAnimeStats env_late_down svc_stale ''alice'')) \<noteq> svc_stale"
proof -
  have c: "cache (stats_cache svc_stale) ''stats_alice''
     = Some \<lparr>entry_value = Val alice_stats, timestamp = 0\<rparr>"
    by (simp add: svc_stale_def)
  have n: "cache (stats_cache (fst (snd (fetchUserAnimeStats env_late_down svc_stale ''alice'')))) ''stats_alice''
     = None"
    by (simp add: stale_fetch)
  from c n have "fst (snd (fetchUserAnimeStats env_late_down svc_stale ''alice'')) \<noteq> svc_stale"
    by (metis option.distinct(1))
  then show ?thesis using c n by (simp add: stale_fetch)
qed

text \<open>
  The response for \<open>alice\<close>: one completed entry, one watched entry, total 2.
\<close>

theorem total_is_sum_of_counts_witness:
  "well_formed alice_lists \<and> (\<exists>st. aggregate (Some alice_lists) = Inr st) \<and>
   aggregate (Some alice_lists) = Inr alice_stats \<and>
   totalAnime alice_stats =
     completedAnime alice_stats + watchingAnime alice_stats + pausedAnime alice_stats +
     droppedAnime alice_stats + planningAnime alice_stats"
proof -
  have a: "aggregate (Some alice_lists) = Inr alice_stats"
    by (simp add: alice_stats_def aggregate_eval alice_lists_def)
  have w: "well_formed alice_lists"
    by (simp add: well_formed_def alice_lists_def scored_list_def list_ok_def entry_ok_def)
  with a total_is_sum_of_counts [where ls = alice_lists and lv = "Some alice_lists" and st = alice_stats]
  show ?thesis by blast
qed

text \<open>
  A response with a \<open>Completed\<close> list only, and one with a \<open>Watching\<close> list only.
\<close>

theorem aggregate_defaults_witness:
  "well_formed completed_only \<and>
   (\<exists>st. aggregate (Some completed_only) = Inr st) \<and>
   aggregate (Some completed_only) =
     Inr \<lparr>totalAnime = 1, completedAnime = 1, watchingAnime = 0, pausedAnime = 0,
          droppedAnime = 0, planningAnime = 0, averageScore = Text (Digits False 8500)\<rparr> \<and>
   \<not> has_list completed_only ''Watching'' \<and> \<not> has_list completed_only ''Paused'' \<and>
   \<not> has_list completed_only ''Dropped'' \<and> \<not> has_list completed_only ''Planning'' \<and>
   watchingAnime \<lparr>totalAnime = 1, completedAnime = 1, watchingAnime = 0, pausedAnime = 0,
          droppedAnime = 0, planningAnime = 0, averageScore = Text (Digits False 8500)\<rparr> = 0 \<and>
   well_formed [scored_list ''Watching'' [ScoreNull]] \<and>
   \<not> has_list [scored_list ''Watching'' [ScoreNull]] ''Completed'' \<and>
   aggregate (Some [scored_list ''Watching'' [ScoreNull]]) =
     Inr \<lparr>totalAnime = 1, completedAnime = 0, watchingAnime = 1, pausedAnime = 0,
          droppedAnime = 0, planningAnime = 0, averageScore = Zero\<rparr>"
proof -
  have w: "well_formed completed_only"
    by (simp add: well_formed_def completed_only_def scored_list_def list_ok_def entry_ok_def)
  have a: "aggregate (Some completed_only) =
     Inr \<lparr>totalAnime = 1, completedAnime = 1, watchingAnime = 0, pausedAnime = 0,
          droppedAnime = 0, planningAnime = 0, averageScore = Text (Digits False 8500)\<rparr>"
    by (simp add: aggregate_eval completed_only_def)
  have h: "\<not> has_list completed_only ''Watching''" "\<not> has_list completed_only ''Paused''"
    "\<not> has_list completed_only ''Dropped''" "\<not> has_list completed_only ''Planning''"
    "\<not> has_list [scored_list ''Watching'' [ScoreNull]] ''Completed''"
    by (simp_all add: has_list_def completed_only_def scored_list_def)
  have w2: "well_formed [scored_list ''Watching'' [ScoreNull]]"
    by (simp add: well_formed_def scored_list_def list_ok_def entry_ok_def)
  have a2: "aggregate (Some [scored_list ''Watching'' [ScoreNull]]) =
     Inr \<lparr>totalAnime = 1, completedAnime = 0, watchingAnime = 1, pausedAnime = 0,
          droppedAnime = 0, planningAnime = 0, averageScore = Zero\<rparr>"
    by (simp add: aggregate_eval)
  show ?thesis
    using aggregate_defaults [where ls = completed_only and
        st = "\<lparr>totalAnime = 1, completedAnime = 1, watchingAnime = 0, pausedAnime = 0,
          droppedAnime = 0, planningAnime = 0, averageScore = Text (Digits False 8500)\<rparr>"]
      aggregate_defaults [where ls = "[scored_list ''Watching'' [ScoreNull]]" and
        st = "\<lparr>totalAnime = 1, completedAnime = 0, watchingAnime = 1, pausedAnime = 0,
          droppedAnime = 0, planningAnime = 0, averageScore = Zero\<rparr>"]
      w a h w2 a2 by simp
qed

text \<open>
  C5 as stated has no input raise an error, and a response without \<^verbatim>\<open>lists\<close>
  give all-zero counts. The code throws a \<^verbatim>\<open>TypeError\<close> for a response whose
  \<^verbatim>\<open>lists\<close> is \<^verbatim>\<open>null\<close> or missing (the fetch rethrows it), for a
  \<^verbatim>\<open>null\<close> element of \<^verbatim>\<open>lists\<close>, and for a \<^verbatim>\<open>null\<close> entry of a list.
\<close>

theorem missing_lists_counterexample:
  "stats_of_response ''alice''
     (Resolved (Some \<lparr>data_User = Some \<lparr>user_id = 1, user_name = ''alice''\<rparr>,
                      data_MediaListCollection = Some \<lparr>lists = None\<rparr>\<rparr>)) = Inl TypeError \<and>
   aggregate None = Inl TypeError \<and>
   aggregate None \<noteq>
     Inr \<lparr>totalAnime = 0, completedAnime = 0, watchingAnime = 0, pausedAnime = 0,
          droppedAnime = 0, planningAnime = 0, averageScore = Zero\<rparr> \<and>
   aggregate (Some [None]) = Inl TypeError \<and>
   aggregate (Some [Some \<lparr>list_name = Some ''Completed'', list_entries = Some [None]\<rparr>]) = Inl TypeError"
  by (simp add: stats_of_response_def aggregate_eval)



end
